theory Spec2Isabelle
  imports Main "HOL-Library.Word" "HOL-Library.Char_ord" "HOL-Library.List_Lexorder"
begin

section \<open>Schema migrator (internal/migrations/migration_manager.go)\<close>

subsection \<open>String helpers of the Go standard library\<close>

text \<open>Go strings are byte sequences; a \<^typ>\<open>string\<close> is the list of its bytes.\<close>

definition HasPrefix :: "string \<Rightarrow> string \<Rightarrow> bool" where
  "HasPrefix s p = (take (length p) s = p)"

definition HasSuffix :: "string \<Rightarrow> string \<Rightarrow> bool" where
  "HasSuffix s suf = (length suf \<le> length s \<and> drop (length s - length suf) s = suf)"

definition TrimSuffix :: "string \<Rightarrow> string \<Rightarrow> string" where
  "TrimSuffix s suf = (if HasSuffix s suf then take (length s - length suf) s else s)"

text \<open>\<open>cut_at c s\<close> cuts \<open>s\<close> at the first occurrence of the byte \<open>c\<close>.\<close>

fun cut_at :: "char \<Rightarrow> string \<Rightarrow> (string \<times> string) option" where
  "cut_at c [] = None"
| "cut_at c (x # xs) =
     (if x = c then Some ([], xs)
      else (case cut_at c xs of None \<Rightarrow> None | Some (a, b) \<Rightarrow> Some (x # a, b)))"

text \<open>\<open>strings.SplitN(s, sep, 2)\<close> for a one-byte separator: at most two parts.\<close>

definition SplitN2 :: "string \<Rightarrow> char \<Rightarrow> string list" where
  "SplitN2 s c = (case cut_at c s of None \<Rightarrow> [s] | Some (a, b) \<Rightarrow> [a, b])"

text \<open>\<open>strings.Split(s, "\n")\<close>: always at least one part.\<close>

fun Split :: "string \<Rightarrow> char \<Rightarrow> string list" where
  "Split [] c = [[]]"
| "Split (x # xs) c =
     (if x = c then [] # Split xs c
      else (case Split xs c of [] \<Rightarrow> [[x]] | l # ls \<Rightarrow> (x # l) # ls))"

fun Join :: "string list \<Rightarrow> string \<Rightarrow> string" where
  "Join [] sep = []"
| "Join [l] sep = l"
| "Join (l # ls) sep = l @ sep @ Join ls sep"

subsection \<open>strconv.Atoi, with its error discarded\<close>

definition is_digit :: "char \<Rightarrow> bool" where
  "is_digit c = ((48::nat) \<le> of_char c \<and> (of_char c :: nat) \<le> 57)"

definition digit_val :: "char \<Rightarrow> int" where
  "digit_val c = int (of_char c) - 48"

definition dec_value :: "string \<Rightarrow> int" where
  "dec_value ds = foldl (\<lambda>acc c. acc * 10 + digit_val c) 0 ds"

definition maxInt64 :: int where
  "maxInt64 = 9223372036854775807"

text \<open>
  \<open>vi, _ := strconv.Atoi(s)\<close> on a 64-bit platform: an optional sign, then decimal
  digits only. On a syntax error the value is 0; on a range error the value is the
  nearest bound. The sort below reads the value and ignores the error.
\<close>

definition Atoi :: "string \<Rightarrow> int" where
  "Atoi s =
     (let neg = (s \<noteq> [] \<and> hd s = CHR ''-'');
          ds = (if s \<noteq> [] \<and> (hd s = CHR ''-'' \<or> hd s = CHR ''+'') then tl s else s)
      in if ds = [] \<or> \<not> list_all is_digit ds then 0
         else if neg then (if dec_value ds > maxInt64 + 1 then - (maxInt64 + 1) else - dec_value ds)
         else (if dec_value ds > maxInt64 then maxInt64 else dec_value ds))"

subsection \<open>Artifacts on disk\<close>

text \<open>
  The library functions whose bodies are not part of the repository are parameters:
  \<open>sha256.Sum256\<close>, returning a 32-byte array (indices 0 to 31), and
  \<open>strings.TrimSpace\<close>.
\<close>

record stdlib =
  Sum256 :: "string \<Rightarrow> nat \<Rightarrow> 8 word"
  TrimSpace :: "string \<Rightarrow> string"

definition hex_digit :: "nat \<Rightarrow> char" where
  "hex_digit n = (''0123456789abcdef'') ! (n mod 16)"

definition hex_byte :: "8 word \<Rightarrow> string" where
  "hex_byte b = [hex_digit (unat b div 16), hex_digit (unat b mod 16)]"

text \<open>\<open>fmt.Sprintf("%x", h)\<close> for \<open>h\<close> a \<open>[32]byte\<close>.\<close>

definition calculateChecksum :: "stdlib \<Rightarrow> string \<Rightarrow> string" where
  "calculateChecksum L content = concat (map (\<lambda>i. hex_byte (Sum256 L content i)) [0..<32])"

record Migration =
  Version :: string
  Name :: string
  FilePath :: string
  Content :: string
  Checksum :: string
  UpSQL :: string
  DownSQL :: string

text \<open>The loop of \<open>splitMigrationContent\<close>: the state is (inDownSection, upLines, downLines).\<close>

fun split_lines :: "stdlib \<Rightarrow> string list \<Rightarrow> bool \<Rightarrow> string list \<Rightarrow> string list
    \<Rightarrow> string list \<times> string list" where
  "split_lines L [] inDown ups downs = (ups, downs)"
| "split_lines L (line # rest) inDown ups downs =
     (let trimmed = TrimSpace L line in
      if HasPrefix trimmed ''-- DOWN MIGRATION'' \<or> HasPrefix trimmed ''-- ROLLBACK''
      then split_lines L rest True ups downs
      else if inDown then split_lines L rest inDown ups (downs @ [line])
      else split_lines L rest inDown (ups @ [line]) downs)"

definition splitMigrationContent :: "stdlib \<Rightarrow> string \<Rightarrow> string \<times> string" where
  "splitMigrationContent L content =
     (let (ups, downs) = split_lines L (Split content CHR 0x0A) False [] []
      in (TrimSpace L (Join ups [CHR 0x0A]), TrimSpace L (Join downs [CHR 0x0A])))"

text \<open>
  One entry visited by \<open>filepath.WalkDir\<close>, in walk order: its path, its base name,
  whether it is a directory, whether the walk reports an error for it (a missing or
  unreadable directory), and what \<open>os.ReadFile\<close> gives (\<open>None\<close>: a read error).
\<close>

record DirEntry =
  Path :: string
  BaseName :: string
  IsDir :: bool
  WalkErr :: bool
  FileData :: "string option"

definition parseMigrationFile :: "stdlib \<Rightarrow> DirEntry \<Rightarrow> string \<Rightarrow> string \<Rightarrow> string + Migration" where
  "parseMigrationFile L d version name =
     (case FileData d of
        None \<Rightarrow> Inl ''failed to read migration file''
      | Some contentStr \<Rightarrow>
          (let (upSQL, downSQL) = splitMigrationContent L contentStr in
           Inr \<lparr> Version = version, Name = name, FilePath = Path d, Content = contentStr,
                 Checksum = calculateChecksum L contentStr, UpSQL = upSQL, DownSQL = downSQL \<rparr>))"

text \<open>The callback of \<open>filepath.WalkDir\<close>, folded over the entries; the first error ends the walk.\<close>

fun walk :: "stdlib \<Rightarrow> DirEntry list \<Rightarrow> Migration list \<Rightarrow> string + Migration list" where
  "walk L [] migrations = Inr migrations"
| "walk L (d # ds) migrations =
     (if WalkErr d then Inl ''walk error''
      else if IsDir d \<or> \<not> HasSuffix (Path d) ''.sql'' then walk L ds migrations
      else (let parts = SplitN2 (BaseName d) CHR ''_'' in
            if length parts \<noteq> 2 then walk L ds migrations
            else (case parseMigrationFile L d (parts ! 0) (TrimSuffix (parts ! 1) ''.sql'') of
                    Inl e \<Rightarrow> Inl (''failed to parse migration file '' @ Path d @ '': '' @ e)
                  | Inr migration \<Rightarrow> walk L ds (migrations @ [migration]))))"

text \<open>
  \<open>sort.Slice\<close> with the comparison \<open>Atoi(version i) < Atoi(version j)\<close>. Go sorts slices
  of fewer than 12 elements by insertion, which is what \<^const>\<open>sort_key\<close> is; on longer
  slices the order among equal keys is the library's choice, and nothing below depends
  on it.
\<close>

definition loadMigrationFiles :: "stdlib \<Rightarrow> DirEntry list \<Rightarrow> string + Migration list" where
  "loadMigrationFiles L dir =
     (case walk L dir [] of
        Inl e \<Rightarrow> Inl e
      | Inr migrations \<Rightarrow> Inr (sort_key (\<lambda>m. Atoi (Version m)) migrations))"

subsection \<open>The tracking table and the database\<close>

text \<open>
  A row of \<open>schema_migrations\<close>. The serial \<open>id\<close> column is assigned by the database
  and never read by the manager; it is left out.
\<close>

record MigrationRecord =
  RecVersion :: string
  RecName :: string
  RecChecksum :: string
  AppliedAt :: int
  AppliedBy :: string
  Environment :: string
  ExecutionTimeMs :: int

text \<open>
  The database: the names of its base tables, the rows of the tracking table, and
  everything else (\<open>'s\<close>: the rest of the schema and the data).
\<close>

record 's database =
  tables :: "string list"
  schema_migrations :: "MigrationRecord list"
  rest :: 's

text \<open>
  The \<open>INSERT\<close> into \<open>schema_migrations\<close> under the constraints of the table's DDL in
  \<open>ensureMigrationsTable\<close>: \<open>version VARCHAR(50) UNIQUE NOT NULL\<close>, \<open>name VARCHAR(255)\<close>,
  \<open>checksum VARCHAR(64)\<close>, \<open>applied_by VARCHAR(100)\<close>, \<open>environment VARCHAR(50)\<close>,
  \<open>execution_time_ms INTEGER\<close>. The uniqueness is on \<open>version\<close> alone.
\<close>

definition insert_record :: "MigrationRecord \<Rightarrow> 's database \<Rightarrow> string + 's database" where
  "insert_record r db =
     (if \<exists>r' \<in> set (schema_migrations db). RecVersion r' = RecVersion r
      then Inl ''duplicate key value violates unique constraint''
      else if length (RecVersion r) > 50 \<or> length (RecName r) > 255 \<or> length (RecChecksum r) > 64
              \<or> length (AppliedBy r) > 100 \<or> length (Environment r) > 50
      then Inl ''value too long for type character varying''
      else if ExecutionTimeMs r > 2147483647 \<or> ExecutionTimeMs r < - 2147483648
      then Inl ''integer out of range''
      else Inr (db \<lparr> schema_migrations := schema_migrations db @ [r] \<rparr>))"

text \<open>
  What the environment decides for one transaction: whether \<open>Begin\<close> and \<open>Commit\<close>
  fail, the duration measured by \<open>time.Since(startTime)\<close> in nanoseconds, and the
  reading of \<open>time.Now()\<close> stored in \<open>applied_at\<close>.
\<close>

record txenv =
  BeginFails :: bool
  CommitFails :: bool
  Elapsed :: int
  AppliedNow :: int

text \<open>
  The texts that \<open>applyMigration\<close> sends are run by the database server, statement by
  statement. The transaction control statements \<open>BEGIN\<close>, \<open>COMMIT\<close> and \<open>ROLLBACK\<close>
  act on the connection; every other statement acts on the data.
\<close>

datatype stmt = Begin | Commit | Rollback | Stmt string

text \<open>
  A connection to the server: the committed state of the database, which every
  session sees; the view of the open transaction, if one is open, which holds the
  uncommitted changes; and whether the open transaction is a block opened by \<open>BEGIN\<close>
  (\<open>explicit\<close>) or the implicit transaction in which the server runs the statements
  of a text outside of a block.
\<close>

record 's conn =
  committed :: "'s database"
  view :: "'s database option"
  explicit :: bool

text \<open>
  The SQL server: \<open>statements\<close> splits a text into its statements; \<open>exec_sql\<close> runs
  one statement other than transaction control on a state of the database and fails
  or gives the new state; \<open>find_fails\<close> says whether the query of the tracking rows
  fails; \<open>tables_fails\<close> whether the catalogue query fails; \<open>tx_of\<close> gives the
  environment of the transaction opened for an artifact.
\<close>

record 's sqlenv =
  statements :: "string \<Rightarrow> stmt list"
  exec_sql :: "string \<Rightarrow> 's database \<Rightarrow> string + 's database"
  find_fails :: bool
  tables_fails :: bool
  tx_of :: "Migration \<Rightarrow> txenv"

text \<open>\<open>COMMIT\<close>: the view of the open transaction becomes the committed state.\<close>

definition commit_conn :: "'s conn \<Rightarrow> 's conn" where
  "commit_conn c =
     (case view c of
        None \<Rightarrow> c
      | Some v \<Rightarrow> c \<lparr> committed := v, view := None, explicit := False \<rparr>)"

text \<open>\<open>ROLLBACK\<close>: the view of the open transaction is dropped.\<close>

definition rollback_conn :: "'s conn \<Rightarrow> 's conn" where
  "rollback_conn c = c \<lparr> view := None, explicit := False \<rparr>"

text \<open>
  A statement on the data, given by its effect \<open>f\<close>. It works on the view of the open
  transaction; outside of a transaction it opens an implicit one on the committed
  state. When it fails, an implicit transaction is rolled back, and a block stays
  open until the client ends it.
\<close>

definition data_stmt :: "('s database \<Rightarrow> string + 's database) \<Rightarrow> 's conn \<Rightarrow> string option \<times> 's conn" where
  "data_stmt f c =
     (case f (case view c of None \<Rightarrow> committed c | Some v \<Rightarrow> v) of
        Inl e \<Rightarrow> (Some e, if explicit c then c else rollback_conn c)
      | Inr v' \<Rightarrow> (None, c \<lparr> view := Some v' \<rparr>))"

text \<open>
  One statement of a text. \<open>BEGIN\<close> opens a block on the committed state, or turns the
  implicit transaction into a block; inside a block it only warns. \<open>COMMIT\<close> and
  \<open>ROLLBACK\<close> end the open transaction, block or not; without one they only warn.
\<close>

definition run_stmt :: "'s sqlenv \<Rightarrow> stmt \<Rightarrow> 's conn \<Rightarrow> string option \<times> 's conn" where
  "run_stmt E s c =
     (case s of
        Begin \<Rightarrow> (None, case view c of
                          None \<Rightarrow> c \<lparr> view := Some (committed c), explicit := True \<rparr>
                        | Some v \<Rightarrow> c \<lparr> explicit := True \<rparr>)
      | Commit \<Rightarrow> (None, commit_conn c)
      | Rollback \<Rightarrow> (None, rollback_conn c)
      | Stmt q \<Rightarrow> data_stmt (exec_sql E q) c)"

text \<open>The statements of a text in order, up to the first one that fails.\<close>

fun run_all :: "'s sqlenv \<Rightarrow> stmt list \<Rightarrow> 's conn \<Rightarrow> string option \<times> 's conn" where
  "run_all E [] c = (None, c)"
| "run_all E (s # ss) c =
     (case run_stmt E s c of
        (Some e, c') \<Rightarrow> (Some e, c')
      | (None, c') \<Rightarrow> run_all E ss c')"

text \<open>At the end of a text the server commits the implicit transaction, if one is open.\<close>

definition end_text :: "'s conn \<Rightarrow> 's conn" where
  "end_text c = (if explicit c then c else commit_conn c)"

text \<open>\<open>Exec\<close> of a text without arguments: the server runs its statements.\<close>

definition conn_exec :: "'s sqlenv \<Rightarrow> string \<Rightarrow> 's conn \<Rightarrow> string option \<times> 's conn" where
  "conn_exec E q c =
     (case run_all E (statements E q) c of
        (Some e, c') \<Rightarrow> (Some e, c')
      | (None, c') \<Rightarrow> (None, end_text c'))"

text \<open>\<open>Exec\<close> of the one \<open>INSERT\<close> into \<open>schema_migrations\<close>.\<close>

definition conn_insert :: "MigrationRecord \<Rightarrow> 's conn \<Rightarrow> string option \<times> 's conn" where
  "conn_insert r c =
     (case data_stmt (insert_record r) c of
        (Some e, c') \<Rightarrow> (Some e, c')
      | (None, c') \<Rightarrow> (None, end_text c'))"

record MigrationResult =
  ResMigration :: Migration
  Success :: bool
  Error :: "string option"
  ExecutionTime :: int
  RollbackSQL :: string

subsection \<open>The manager's operations\<close>

text \<open>\<open>getAppliedVersions\<close>: the set of versions of the rows of the current environment.\<close>

definition getAppliedVersions :: "'s sqlenv \<Rightarrow> string \<Rightarrow> 's database \<Rightarrow> string + (string \<Rightarrow> bool)" where
  "getAppliedVersions E environment db =
     (if find_fails E then Inl ''failed to query migration records''
      else Inr (\<lambda>v. v \<in> RecVersion ` set (filter (\<lambda>r. Environment r = environment) (schema_migrations db))))"

definition GetPendingMigrations ::
    "stdlib \<Rightarrow> 's sqlenv \<Rightarrow> string \<Rightarrow> DirEntry list \<Rightarrow> 's database \<Rightarrow> string + Migration list" where
  "GetPendingMigrations L E environment dir db =
     (case loadMigrationFiles L dir of
        Inl e \<Rightarrow> Inl (''failed to load migration files: '' @ e)
      | Inr allMigrations \<Rightarrow>
          (case getAppliedVersions E environment db of
             Inl e \<Rightarrow> Inl (''failed to get applied migrations: '' @ e)
           | Inr appliedVersions \<Rightarrow>
               Inr (filter (\<lambda>migration. \<not> appliedVersions (Version migration)) allMigrations)))"

text \<open>The \<open>MigrationRecord\<close> that \<open>applyMigration\<close> builds after the UP text has run.\<close>

definition tracking_record :: "string \<Rightarrow> txenv \<Rightarrow> Migration \<Rightarrow> MigrationRecord" where
  "tracking_record environment te migration =
     \<lparr> RecVersion = Version migration, RecName = Name migration,
       RecChecksum = Checksum migration, AppliedAt = AppliedNow te,
       AppliedBy = ''migration_manager'', Environment = environment,
       ExecutionTimeMs = Elapsed te div 1000000 \<rparr>"

text \<open>
  \<open>applyMigration\<close>. \<open>Begin\<close> opens a block on the committed state of a connection
  without a transaction. The UP text and the \<open>INSERT\<close> are sent on that connection.
  \<open>Commit\<close> sends \<open>COMMIT\<close>; the deferred \<open>Rollback\<close> on every other path sends
  \<open>ROLLBACK\<close>. What the other sessions see afterwards is the committed state.
\<close>

definition applyMigration ::
    "'s sqlenv \<Rightarrow> string \<Rightarrow> Migration \<Rightarrow> 's database \<Rightarrow> MigrationResult \<times> 's database" where
  "applyMigration E environment migration db =
     (let te = tx_of E migration;
          result = \<lparr> ResMigration = migration, Success = False, Error = None,
                     ExecutionTime = 0, RollbackSQL = [] \<rparr>
      in if BeginFails te
         then (result \<lparr> Error := Some ''failed to begin transaction'' \<rparr>, db)
         else (case conn_exec E (UpSQL migration) \<lparr> committed = db, view = Some db, explicit = True \<rparr> of
                 (Some e, tx1) \<Rightarrow>
                   (result \<lparr> Error := Some (''failed to execute migration SQL: '' @ e) \<rparr>,
                    committed (rollback_conn tx1))
               | (None, tx1) \<Rightarrow>
                   (let record = tracking_record environment te migration
                    in case conn_insert record tx1 of
                         (Some e, tx2) \<Rightarrow>
                           (result \<lparr> Error := Some (''failed to record migration: '' @ e) \<rparr>,
                            committed (rollback_conn tx2))
                       | (None, tx2) \<Rightarrow>
                           if CommitFails te
                           then (result \<lparr> Error := Some ''failed to commit migration'' \<rparr>,
                                 committed (rollback_conn tx2))
                           else (result \<lparr> Success := True, ExecutionTime := Elapsed te,
                                          RollbackSQL := DownSQL migration \<rparr>,
                                 committed (commit_conn tx2)))))"

text \<open>The loop of \<open>ApplyMigrations\<close> over the pending artifacts.\<close>

fun apply_pending :: "'s sqlenv \<Rightarrow> string \<Rightarrow> Migration list \<Rightarrow> MigrationResult list \<Rightarrow> 's database
    \<Rightarrow> MigrationResult list \<times> string option \<times> 's database" where
  "apply_pending E environment [] results db = (results, None, db)"
| "apply_pending E environment (migration # ms) results db =
     (case applyMigration E environment migration db of
        (result, db') \<Rightarrow>
          if \<not> Success result
          then (results @ [result],
                Some (''migration '' @ Version migration @ '' failed: ''
                      @ (case Error result of None \<Rightarrow> [] | Some e \<Rightarrow> e)),
                db')
          else apply_pending E environment ms (results @ [result]) db')"

definition ApplyMigrations ::
    "stdlib \<Rightarrow> 's sqlenv \<Rightarrow> string \<Rightarrow> DirEntry list \<Rightarrow> 's database
     \<Rightarrow> MigrationResult list \<times> string option \<times> 's database" where
  "ApplyMigrations L E environment dir db =
     (case GetPendingMigrations L E environment dir db of
        Inl e \<Rightarrow> ([], Some (''failed to get pending migrations: '' @ e), db)
      | Inr pending \<Rightarrow>
          if length pending = 0 then ([], None, db)
          else apply_pending E environment pending [] db)"

definition contains :: "string list \<Rightarrow> string \<Rightarrow> bool" where
  "contains sl item = list_ex (\<lambda>s. s = item) sl"

definition requiredTables :: "string list" where
  "requiredTables = [''users'', ''sessions'', ''login_attempts'', ''user_preferences'',
                     ''user_activities'', ''user_notifications'', ''schema_migrations'']"

definition getCurrentTables :: "'s sqlenv \<Rightarrow> 's database \<Rightarrow> string + string list" where
  "getCurrentTables E db = (if tables_fails E then Inl ''query failed'' else Inr (tables db))"

text \<open>
  \<open>ValidateSchema\<close>: \<open>None\<close> is the nil error. It reads the table names and nothing
  else: neither the artifacts on disk nor the rows of the tracking table.
\<close>

definition ValidateSchema :: "stdlib \<Rightarrow> 's sqlenv \<Rightarrow> string \<Rightarrow> DirEntry list \<Rightarrow> 's database \<Rightarrow> string option" where
  "ValidateSchema L E environment dir db =
     (case getCurrentTables E db of
        Inl e \<Rightarrow> Some (''failed to get current tables: '' @ e)
      | Inr ts \<Rightarrow>
          (case filter (\<lambda>t. \<not> contains ts t) requiredTables of
             [] \<Rightarrow> None
           | t # _ \<Rightarrow> Some (''required table '' @ t @ '' is missing'')))"

section \<open>Credential signer (internal/services/jwt_service.go)\<close>

subsection \<open>Time\<close>

text \<open>
  An instant is a number of nanoseconds since the epoch, a duration a number of
  nanoseconds. Every reading of \<open>time.Now()\<close> within one request gives the same
  instant, the argument \<open>now\<close> of the operation.
\<close>

definition time_Second :: int where
  "time_Second = 1000000000"

definition time_Minute :: int where
  "time_Minute = 60 * time_Second"

definition time_Hour :: int where
  "time_Hour = 60 * time_Minute"

definition Unix :: "int \<Rightarrow> int" where
  "Unix t = t div time_Second"

subsection \<open>Tokens\<close>

text \<open>
  A claim value is a JSON string, a JSON number or some other JSON value. The text of
  a token is identified with what its decoding gives: either it is malformed, or it
  carries the \<open>alg\<close> of its header, its claims and its signature.
\<close>

datatype jvalue = JString string | JNumber int | JOther

record jwt =
  Alg :: string
  Claims :: "(string \<times> jvalue) list"
  Signature :: string

datatype token = Malformed string | Wellformed jwt

type_synonym uuid = nat

text \<open>
  The library functions whose bodies are not part of the repository:
  the HMAC of the signing input (header with its \<open>alg\<close>, and claims) under a key;
  \<open>HashToken\<close>, the hexadecimal SHA-256 of a token's text; \<open>uuid.UUID.String\<close> and
  \<open>uuid.Parse\<close>; \<open>bcrypt.CompareHashAndPassword\<close> (true when it returns no error);
  \<open>time.ParseDuration\<close>; \<open>strings.ToLower\<close>.
\<close>

record authlib =
  hmac_sign :: "string \<Rightarrow> string \<Rightarrow> (string \<times> jvalue) list \<Rightarrow> string"
  HashToken :: "token \<Rightarrow> string"
  uuid_String :: "uuid \<Rightarrow> string"
  uuid_Parse :: "string \<Rightarrow> uuid option"
  CompareHashAndPassword :: "string \<Rightarrow> string \<Rightarrow> bool"
  ParseDuration :: "string \<Rightarrow> int option"
  ToLower :: "string \<Rightarrow> string"

record JWTConfig =
  AccessSecret :: string
  RefreshSecret :: string
  Issuer :: string
  AccessExpiry :: string
  RefreshExpiry :: string

definition parseDuration :: "authlib \<Rightarrow> string \<Rightarrow> int" where
  "parseDuration A durationStr =
     (case ParseDuration A durationStr of None \<Rightarrow> 15 * time_Minute | Some duration \<Rightarrow> duration)"

text \<open>
  The user entity. The profile columns take no part in the operations below and are
  left out.
\<close>

record User =
  ID :: uuid
  Email :: string
  Username :: string
  PasswordHash :: string
  Role :: string
  IsActive :: bool
  EmailVerified :: bool
  LastLoginAt :: "int option"
  LastLoginIP :: "string option"
  FailedLoginAttempts :: int
  LockedUntil :: "int option"
  CreatedAt :: int
  UpdatedAt :: int
  DeletedAt :: "int option"

record JWTClaims =
  cUserID :: string
  cEmail :: string
  cUsername :: string
  cRole :: string
  cType :: string
  cIssuer :: string
  cSubject :: string
  cIssuedAt :: int
  cExpiresAt :: int

text \<open>The claims that \<open>GenerateAccessToken\<close> and \<open>GenerateRefreshToken\<close> put in a token.\<close>

definition token_claims :: "authlib \<Rightarrow> JWTConfig \<Rightarrow> string \<Rightarrow> int \<Rightarrow> int \<Rightarrow> User
    \<Rightarrow> (string \<times> jvalue) list" where
  "token_claims A cfg ty expiry now user =
     [(''user_id'', JString (uuid_String A (ID user))),
      (''email'', JString (Email user)),
      (''username'', JString (Username user)),
      (''role'', JString (Role user)),
      (''type'', JString ty),
      (''iss'', JString (Issuer cfg)),
      (''sub'', JString (uuid_String A (ID user))),
      (''iat'', JNumber (Unix now)),
      (''exp'', JNumber (Unix (now + expiry)))]"

text \<open>\<open>jwt.NewWithClaims(jwt.SigningMethodHS256, claims).SignedString(key)\<close>.\<close>

definition SignedString :: "authlib \<Rightarrow> string \<Rightarrow> (string \<times> jvalue) list \<Rightarrow> token" where
  "SignedString A key cl =
     Wellformed \<lparr> Alg = ''HS256'', Claims = cl, Signature = hmac_sign A ''HS256'' key cl \<rparr>"

definition GenerateAccessToken :: "authlib \<Rightarrow> JWTConfig \<Rightarrow> int \<Rightarrow> User \<Rightarrow> token" where
  "GenerateAccessToken A cfg now user =
     SignedString A (AccessSecret cfg)
       (token_claims A cfg ''access'' (parseDuration A (AccessExpiry cfg)) now user)"

definition GenerateRefreshToken :: "authlib \<Rightarrow> JWTConfig \<Rightarrow> int \<Rightarrow> User \<Rightarrow> token" where
  "GenerateRefreshToken A cfg now user =
     SignedString A (RefreshSecret cfg)
       (token_claims A cfg ''refresh'' (parseDuration A (RefreshExpiry cfg)) now user)"

subsection \<open>Parsing and validation\<close>

definition hmac_methods :: "string list" where
  "hmac_methods = [''HS256'', ''HS384'', ''HS512'']"

text \<open>
  The key function that both validators pass to \<open>jwt.Parse\<close>: a signing method
  outside the HMAC family is refused, otherwise the secret is the key.
\<close>

definition key_func :: "string \<Rightarrow> jwt \<Rightarrow> string + string" where
  "key_func secret j =
     (if Alg j \<in> set hmac_methods then Inr secret else Inl ''invalid signing method'')"

text \<open>
  The claim validation of \<open>jwt.Parse\<close> (golang-jwt v5, default options): \<open>exp\<close> and
  \<open>nbf\<close> are optional, must be numbers when present, and the token is valid at
  \<open>now\<close> when \<open>now\<close> is before \<open>exp\<close> and not before \<open>nbf\<close>.
\<close>

definition validate_nbf :: "int \<Rightarrow> (string \<times> jvalue) list \<Rightarrow> string option" where
  "validate_nbf now cl =
     (case map_of cl ''nbf'' of
        None \<Rightarrow> None
      | Some (JNumber n) \<Rightarrow> if now < n * time_Second then Some ''token is not valid yet'' else None
      | Some _ \<Rightarrow> Some ''invalid type for claim'')"

definition validate_claims :: "int \<Rightarrow> (string \<times> jvalue) list \<Rightarrow> string option" where
  "validate_claims now cl =
     (case map_of cl ''exp'' of
        None \<Rightarrow> validate_nbf now cl
      | Some (JNumber e) \<Rightarrow> if now < e * time_Second then validate_nbf now cl
                            else Some ''token is expired''
      | Some _ \<Rightarrow> Some ''invalid type for claim'')"

text \<open>
  \<open>jwt.Parse\<close>: decode, ask the key function for the key, verify the signature,
  validate the claims.
\<close>

definition jwt_Parse :: "authlib \<Rightarrow> int \<Rightarrow> (jwt \<Rightarrow> string + string) \<Rightarrow> token \<Rightarrow> string + jwt" where
  "jwt_Parse A now kf t =
     (case t of
        Malformed _ \<Rightarrow> Inl ''token is malformed''
      | Wellformed j \<Rightarrow>
          (case kf j of
             Inl e \<Rightarrow> Inl (''token is unverifiable: '' @ e)
           | Inr key \<Rightarrow>
               if Signature j \<noteq> hmac_sign A (Alg j) key (Claims j)
               then Inl ''signature is invalid''
               else (case validate_claims now (Claims j) of
                       Some e \<Rightarrow> Inl e
                     | None \<Rightarrow> Inr j)))"

definition claim_string :: "(string \<times> jvalue) list \<Rightarrow> string \<Rightarrow> string option" where
  "claim_string cl k = (case map_of cl k of Some (JString s) \<Rightarrow> Some s | _ \<Rightarrow> None)"

definition claim_number :: "(string \<times> jvalue) list \<Rightarrow> string \<Rightarrow> int option" where
  "claim_number cl k = (case map_of cl k of Some (JNumber n) \<Rightarrow> Some n | _ \<Rightarrow> None)"

definition mapClaimsToJWTClaims :: "(string \<times> jvalue) list \<Rightarrow> string + JWTClaims" where
  "mapClaimsToJWTClaims cl =
     (case claim_string cl ''user_id'' of None \<Rightarrow> Inl ''invalid user_id claim'' | Some userID \<Rightarrow>
      case claim_string cl ''email'' of None \<Rightarrow> Inl ''invalid email claim'' | Some email \<Rightarrow>
      case claim_string cl ''username'' of None \<Rightarrow> Inl ''invalid username claim'' | Some username \<Rightarrow>
      case claim_string cl ''role'' of None \<Rightarrow> Inl ''invalid role claim'' | Some roleStr \<Rightarrow>
      case claim_string cl ''type'' of None \<Rightarrow> Inl ''invalid type claim'' | Some tokenType \<Rightarrow>
      case claim_string cl ''iss'' of None \<Rightarrow> Inl ''invalid issuer claim'' | Some issuer \<Rightarrow>
      case claim_string cl ''sub'' of None \<Rightarrow> Inl ''invalid subject claim'' | Some subject \<Rightarrow>
      case claim_number cl ''iat'' of None \<Rightarrow> Inl ''invalid issued at claim'' | Some issuedAt \<Rightarrow>
      case claim_number cl ''exp'' of None \<Rightarrow> Inl ''invalid expires at claim'' | Some expiresAt \<Rightarrow>
        Inr \<lparr> cUserID = userID, cEmail = email, cUsername = username, cRole = roleStr,
              cType = tokenType, cIssuer = issuer, cSubject = subject,
              cIssuedAt = issuedAt, cExpiresAt = expiresAt \<rparr>)"

text \<open>
  The body shared by \<open>ValidateToken\<close> and \<open>ValidateRefreshToken\<close>, which differ in
  the secret and in the expected \<open>type\<close> claim only. After a successful
  \<open>jwt.Parse\<close> the token is valid and its claims are a \<open>MapClaims\<close>, so the two
  checks that follow the parse in the source never fail.
\<close>

definition validate_with :: "authlib \<Rightarrow> string \<Rightarrow> string \<Rightarrow> int \<Rightarrow> token \<Rightarrow> string + JWTClaims" where
  "validate_with A secret expected now tokenString =
     (case jwt_Parse A now (key_func secret) tokenString of
        Inl e \<Rightarrow> Inl e
      | Inr j \<Rightarrow>
          (case claim_string (Claims j) ''type'' of
             None \<Rightarrow> Inl ''invalid token type''
           | Some tokenType \<Rightarrow>
               if tokenType \<noteq> expected then Inl ''invalid token type''
               else mapClaimsToJWTClaims (Claims j)))"

definition ValidateToken :: "authlib \<Rightarrow> JWTConfig \<Rightarrow> int \<Rightarrow> token \<Rightarrow> string + JWTClaims" where
  "ValidateToken A cfg now tokenString = validate_with A (AccessSecret cfg) ''access'' now tokenString"

definition ValidateRefreshToken :: "authlib \<Rightarrow> JWTConfig \<Rightarrow> int \<Rightarrow> token \<Rightarrow> string + JWTClaims" where
  "ValidateRefreshToken A cfg now tokenString =
     validate_with A (RefreshSecret cfg) ''refresh'' now tokenString"

text \<open>What it means for a token to be signed with a key, and its \<open>type\<close> claim.\<close>

definition signed_with :: "authlib \<Rightarrow> string \<Rightarrow> token \<Rightarrow> bool" where
  "signed_with A key t =
     (case t of Malformed _ \<Rightarrow> False
      | Wellformed j \<Rightarrow> Signature j = hmac_sign A (Alg j) key (Claims j))"

definition type_claim :: "token \<Rightarrow> string option" where
  "type_claim t = (case t of Malformed _ \<Rightarrow> None | Wellformed j \<Rightarrow> claim_string (Claims j) ''type'')"

section \<open>Stores (internal/repositories)\<close>

text \<open>
  A value held by the ephemeral store: the JSON object written by
  \<open>StoreRefreshToken\<close> (the user id as text, and the creation instant), the marker
  written by \<open>BlacklistToken\<close>, or anything else.
\<close>

datatype rvalue = TokenData string int | Marker | Junk string

record Session =
  sUserID :: uuid
  sAccessTokenHash :: string
  sRefreshToken :: string
  sExpiresAt :: int
  sIPAddress :: string
  sUserAgent :: string
  sDeviceInfo :: string
  sIsActive :: bool
  sIsRevoked :: bool

record LoginAttempt =
  laEmail :: string
  laIPAddress :: string
  laUserAgent :: string
  laSuccess :: bool

text \<open>
  The state outside the service: the tables \<open>users\<close>, \<open>sessions\<close> and
  \<open>login_attempts\<close>; the ephemeral store, each key with its value and the instant at
  which it expires; and, for each store, what the coming calls will meet: \<open>True\<close> for
  a call that fails with a transport error, one entry per call, none left meaning that
  the calls succeed.
\<close>

record world =
  users :: "User list"
  sessions :: "Session list"
  login_attempts :: "LoginAttempt list"
  redis :: "string \<rightharpoonup> rvalue \<times> int"
  db_faults :: "bool list"
  redis_faults :: "bool list"

text \<open>Whether the \<open>n\<close>-th coming call (counted from 0) fails.\<close>

definition nth_fault :: "bool list \<Rightarrow> nat \<Rightarrow> bool" where
  "nth_fault tape n = (n < length tape \<and> tape ! n)"

text \<open>A call to a store: whether it fails, and the state with that call consumed.\<close>

definition db_call :: "world \<Rightarrow> bool \<times> world" where
  "db_call w = (nth_fault (db_faults w) 0, w \<lparr> db_faults := tl (db_faults w) \<rparr>)"

definition redis_call :: "world \<Rightarrow> bool \<times> world" where
  "redis_call w = (nth_fault (redis_faults w) 0, w \<lparr> redis_faults := tl (redis_faults w) \<rparr>)"

text \<open>The value of a key that has not expired at \<open>now\<close>.\<close>

definition redis_live :: "world \<Rightarrow> int \<Rightarrow> string \<Rightarrow> rvalue option" where
  "redis_live w now key =
     (case redis w key of None \<Rightarrow> None | Some (v, e) \<Rightarrow> if now < e then Some v else None)"

subsection \<open>User repository\<close>

text \<open>
  Queries on \<open>users\<close> carry gorm's soft-delete condition (\<open>deleted_at IS NULL\<close>) and,
  in the three getters, \<open>is_active = true\<close>.
\<close>

definition GetByID :: "uuid \<Rightarrow> world \<Rightarrow> (string + User) \<times> world" where
  "GetByID uid w =
     (case db_call w of (fault, w1) \<Rightarrow>
        if fault then (Inl ''database error'', w1)
        else (case find (\<lambda>u. ID u = uid \<and> IsActive u \<and> DeletedAt u = None) (users w1) of
                None \<Rightarrow> (Inl ''user not found'', w1)
              | Some user \<Rightarrow> (Inr user, w1)))"

definition GetByEmail :: "string \<Rightarrow> world \<Rightarrow> (string + User) \<times> world" where
  "GetByEmail email w =
     (case db_call w of (fault, w1) \<Rightarrow>
        if fault then (Inl ''database error'', w1)
        else (case find (\<lambda>u. Email u = email \<and> IsActive u \<and> DeletedAt u = None) (users w1) of
                None \<Rightarrow> (Inl ''user not found'', w1)
              | Some user \<Rightarrow> (Inr user, w1)))"

text \<open>
  The column \<open>failed_login_attempts\<close> of \<open>users\<close> is an \<open>INTEGER\<close> (32 bits, signed) in
  \<open>001_initial_schema.sql\<close>: the database refuses a write of a value outside of its
  range.
\<close>

definition fits_integer :: "int \<Rightarrow> bool" where
  "fits_integer n = (- 2147483648 \<le> n \<and> n \<le> 2147483647)"

text \<open>\<open>db.Save(user)\<close>: the row with the user's id is replaced (inserted when there is none).\<close>

definition save_row :: "User \<Rightarrow> User list \<Rightarrow> User list" where
  "save_row u rows =
     (if list_ex (\<lambda>x. ID x = ID u) rows then map (\<lambda>x. if ID x = ID u then u else x) rows
      else rows @ [u])"

definition Update :: "User \<Rightarrow> int \<Rightarrow> world \<Rightarrow> string option \<times> world" where
  "Update user now w =
     (case db_call w of (fault, w1) \<Rightarrow>
        if fault then (Some ''database error'', w1)
        else if \<not> fits_integer (FailedLoginAttempts user)
        then (Some ''integer out of range'', w1)
        else (None, w1 \<lparr> users := save_row (user \<lparr> UpdatedAt := now \<rparr>) (users w1) \<rparr>))"

definition UpdateLastLogin :: "uuid \<Rightarrow> string \<Rightarrow> int \<Rightarrow> world \<Rightarrow> string option \<times> world" where
  "UpdateLastLogin userID ipAddress now w =
     (case db_call w of (fault, w1) \<Rightarrow>
        if fault then (Some ''database error'', w1)
        else (None, w1 \<lparr> users :=
                map (\<lambda>x. if ID x = userID \<and> DeletedAt x = None
                         then x \<lparr> LastLoginAt := Some now, LastLoginIP := Some ipAddress,
                                  UpdatedAt := now \<rparr>
                         else x) (users w1) \<rparr>))"

definition CreateLoginAttempt :: "LoginAttempt \<Rightarrow> world \<Rightarrow> string option \<times> world" where
  "CreateLoginAttempt attempt w =
     (case db_call w of (fault, w1) \<Rightarrow>
        if fault then (Some ''database error'', w1)
        else (None, w1 \<lparr> login_attempts := login_attempts w1 @ [attempt] \<rparr>))"

subsection \<open>Session repository\<close>

text \<open>\<open>sessions.refresh_token\<close> is \<open>UNIQUE NOT NULL\<close>.\<close>

definition CreateSession :: "Session \<Rightarrow> world \<Rightarrow> string option \<times> world" where
  "CreateSession session w =
     (case db_call w of (fault, w1) \<Rightarrow>
        if fault then (Some ''database error'', w1)
        else if list_ex (\<lambda>s. sRefreshToken s = sRefreshToken session) (sessions w1)
        then (Some ''duplicate key value violates unique constraint'', w1)
        else (None, w1 \<lparr> sessions := sessions w1 @ [session] \<rparr>))"

definition refresh_key :: "string \<Rightarrow> string" where
  "refresh_key tokenHash = ''refresh_token:'' @ tokenHash"

definition blacklist_key :: "string \<Rightarrow> string" where
  "blacklist_key tokenHash = ''blacklist:'' @ tokenHash"

definition StoreRefreshToken ::
    "authlib \<Rightarrow> uuid \<Rightarrow> string \<Rightarrow> int \<Rightarrow> int \<Rightarrow> world \<Rightarrow> string option \<times> world" where
  "StoreRefreshToken A userID tokenHash expiry now w =
     (case redis_call w of (fault, w1) \<Rightarrow>
        if fault then (Some ''redis error'', w1)
        else (None, w1 \<lparr> redis := (redis w1)
                (refresh_key tokenHash \<mapsto> (TokenData (uuid_String A userID) now, now + expiry)) \<rparr>))"

definition GetRefreshTokenData :: "string \<Rightarrow> int \<Rightarrow> world \<Rightarrow> (string + string) \<times> world" where
  "GetRefreshTokenData tokenHash now w =
     (case redis_call w of (fault, w1) \<Rightarrow>
        if fault then (Inl ''redis error'', w1)
        else (case redis_live w1 now (refresh_key tokenHash) of
                None \<Rightarrow> (Inl ''refresh token not found'', w1)
              | Some (TokenData userID created) \<Rightarrow> (Inr userID, w1)
              | Some _ \<Rightarrow> (Inl ''invalid token data'', w1)))"

definition DeleteRefreshToken :: "string \<Rightarrow> world \<Rightarrow> string option \<times> world" where
  "DeleteRefreshToken tokenHash w =
     (case redis_call w of (fault, w1) \<Rightarrow>
        if fault then (Some ''redis error'', w1)
        else (None, w1 \<lparr> redis := (redis w1) (refresh_key tokenHash := None) \<rparr>))"

definition BlacklistToken :: "string \<Rightarrow> int \<Rightarrow> int \<Rightarrow> world \<Rightarrow> string option \<times> world" where
  "BlacklistToken tokenHash expiry now w =
     (case redis_call w of (fault, w1) \<Rightarrow>
        if fault then (Some ''redis error'', w1)
        else (None, w1 \<lparr> redis := (redis w1)
                (blacklist_key tokenHash \<mapsto> (Marker, now + expiry)) \<rparr>))"

definition IsTokenBlacklisted :: "string \<Rightarrow> int \<Rightarrow> world \<Rightarrow> (string + bool) \<times> world" where
  "IsTokenBlacklisted tokenHash now w =
     (case redis_call w of (fault, w1) \<Rightarrow>
        if fault then (Inl ''redis error'', w1)
        else (case redis_live w1 now (blacklist_key tokenHash) of
                None \<Rightarrow> (Inr False, w1)
              | Some _ \<Rightarrow> (Inr True, w1)))"

section \<open>Auth engine (internal/services/auth_service.go, internal/models/user.go)\<close>

subsection \<open>Lockout methods of the user entity\<close>

definition IsLocked :: "int \<Rightarrow> User \<Rightarrow> bool" where
  "IsLocked now u = (case LockedUntil u of None \<Rightarrow> False | Some t \<Rightarrow> now < t)"

definition CanAttemptLogin :: "int \<Rightarrow> User \<Rightarrow> bool" where
  "CanAttemptLogin now u = (IsActive u \<and> \<not> IsLocked now u)"

text \<open>
  The counter \<open>FailedLoginAttempts\<close> is a Go \<open>int\<close>, 64 bits wide and signed: \<open>++\<close>
  wraps around from \<open>2^63 - 1\<close> to \<open>- 2^63\<close>.
\<close>

definition wrap64 :: "int \<Rightarrow> int" where
  "wrap64 n = (n + 9223372036854775808) mod 18446744073709551616 - 9223372036854775808"

definition IncrementFailedAttempts :: "int \<Rightarrow> User \<Rightarrow> User" where
  "IncrementFailedAttempts now u =
     (let u1 = u \<lparr> FailedLoginAttempts := wrap64 (FailedLoginAttempts u + 1) \<rparr>
      in if FailedLoginAttempts u1 \<ge> 5 then u1 \<lparr> LockedUntil := Some (now + 15 * time_Minute) \<rparr>
         else u1)"

definition ResetFailedAttempts :: "User \<Rightarrow> User" where
  "ResetFailedAttempts u = u \<lparr> FailedLoginAttempts := 0, LockedUntil := None \<rparr>"

subsection \<open>Responses\<close>

record UserInfo =
  uiID :: string
  uiEmail :: string
  uiUsername :: string
  uiRole :: string
  uiIsActive :: bool
  uiEmailVerified :: bool
  uiLastLoginAt :: "int option"
  uiCreatedAt :: int

record AuthResponse =
  aAccessToken :: token
  aRefreshToken :: token
  aTokenType :: string
  aExpiresIn :: int
  aUser :: UserInfo

record RefreshResponse =
  rAccessToken :: token
  rRefreshToken :: token
  rTokenType :: string
  rExpiresIn :: int

record VerifyTokenResponse =
  Valid :: bool
  vUserID :: string
  vRole :: string
  vEmail :: string

definition GenerateTokenPair :: "authlib \<Rightarrow> JWTConfig \<Rightarrow> int \<Rightarrow> User \<Rightarrow> AuthResponse" where
  "GenerateTokenPair A cfg now user =
     \<lparr> aAccessToken = GenerateAccessToken A cfg now user,
       aRefreshToken = GenerateRefreshToken A cfg now user,
       aTokenType = ''Bearer'',
       aExpiresIn = parseDuration A (AccessExpiry cfg) div time_Second,
       aUser = \<lparr> uiID = uuid_String A (ID user), uiEmail = Email user,
                 uiUsername = Username user, uiRole = Role user, uiIsActive = IsActive user,
                 uiEmailVerified = EmailVerified user, uiLastLoginAt = LastLoginAt user,
                 uiCreatedAt = CreatedAt user \<rparr> \<rparr>"

definition verifyPassword :: "authlib \<Rightarrow> string \<Rightarrow> string \<Rightarrow> bool" where
  "verifyPassword A password hash = CompareHashAndPassword A hash password"

subsection \<open>Login\<close>

text \<open>
  The part of \<open>Login\<close> after the password has been verified: reset of the failed
  attempts, last login, audit row, token pair, refresh record, session row.
\<close>

definition login_success ::
    "authlib \<Rightarrow> JWTConfig \<Rightarrow> int \<Rightarrow> LoginAttempt \<Rightarrow> string \<Rightarrow> string \<Rightarrow> User \<Rightarrow> world
     \<Rightarrow> (string + AuthResponse) \<times> world" where
  "login_success A cfg now loginAttempt ipAddress userAgent user0 w1 =
     (case (if FailedLoginAttempts user0 > 0
            then (ResetFailedAttempts user0, snd (Update (ResetFailedAttempts user0) now w1))
            else (user0, w1)) of (user, w2) \<Rightarrow>
      case UpdateLastLogin (ID user) ipAddress now w2 of (_, w3) \<Rightarrow>
      case CreateLoginAttempt (loginAttempt \<lparr> laSuccess := True \<rparr>) w3 of (_, w4) \<Rightarrow>
      let authResponse = GenerateTokenPair A cfg now user;
          refreshTokenHash = HashToken A (aRefreshToken authResponse)
      in case StoreRefreshToken A (ID user) refreshTokenHash (7 * 24 * time_Hour) now w4 of
           (Some e, w5) \<Rightarrow> (Inl e, w5)
         | (None, w5) \<Rightarrow>
             (case CreateSession
                     \<lparr> sUserID = ID user,
                       sAccessTokenHash = HashToken A (aAccessToken authResponse),
                       sRefreshToken = refreshTokenHash,
                       sExpiresAt = now + 15 * time_Minute,
                       sIPAddress = ipAddress, sUserAgent = userAgent,
                       sDeviceInfo = ''{}'', sIsActive = True, sIsRevoked = False \<rparr> w5 of
                (Some e, w6) \<Rightarrow> (Inl e, w6)
              | (None, w6) \<Rightarrow> (Inr authResponse, w6)))"

definition Login ::
    "authlib \<Rightarrow> JWTConfig \<Rightarrow> int \<Rightarrow> string \<Rightarrow> string \<Rightarrow> string \<Rightarrow> string \<Rightarrow> world
     \<Rightarrow> (string + AuthResponse) \<times> world" where
  "Login A cfg now reqEmail reqPassword ipAddress userAgent w =
     (let loginAttempt = \<lparr> laEmail = reqEmail, laIPAddress = ipAddress,
                            laUserAgent = userAgent, laSuccess = False \<rparr>
      in case GetByEmail (ToLower A reqEmail) w of
           (Inl e, w1) \<Rightarrow> (Inl ''invalid credentials'', snd (CreateLoginAttempt loginAttempt w1))
         | (Inr user, w1) \<Rightarrow>
             if \<not> CanAttemptLogin now user
             then (if IsLocked now user then Inl ''account is temporarily locked''
                   else Inl ''account is inactive'',
                   snd (CreateLoginAttempt loginAttempt w1))
             else if \<not> verifyPassword A reqPassword (PasswordHash user)
             then (Inl ''invalid credentials'',
                   snd (CreateLoginAttempt loginAttempt
                          (snd (Update (IncrementFailedAttempts now user) now w1))))
             else login_success A cfg now loginAttempt ipAddress userAgent user w1)"

subsection \<open>Refresh with rotation\<close>

definition RefreshToken ::
    "authlib \<Rightarrow> JWTConfig \<Rightarrow> int \<Rightarrow> token \<Rightarrow> world \<Rightarrow> (string + RefreshResponse) \<times> world" where
  "RefreshToken A cfg now reqRefreshToken w =
     (case ValidateRefreshToken A cfg now reqRefreshToken of
        Inl e \<Rightarrow> (Inl ''invalid refresh token'', w)
      | Inr claims \<Rightarrow>
     (let tokenHash = HashToken A reqRefreshToken in
      case IsTokenBlacklisted tokenHash now w of
        (Inl e, w1) \<Rightarrow> (Inl e, w1)
      | (Inr True, w1) \<Rightarrow> (Inl ''refresh token is blacklisted'', w1)
      | (Inr False, w1) \<Rightarrow>
     (case GetRefreshTokenData tokenHash now w1 of
        (Inl e, w2) \<Rightarrow> (Inl ''refresh token not found'', w2)
      | (Inr userIDStr, w2) \<Rightarrow>
          if userIDStr \<noteq> cUserID claims then (Inl ''invalid refresh token'', w2)
          else
     (case uuid_Parse A userIDStr of
        None \<Rightarrow> (Inl ''invalid user ID'', w2)
      | Some userID \<Rightarrow>
     (case GetByID userID w2 of
        (Inl e, w3) \<Rightarrow> (Inl ''user not found'', w3)
      | (Inr user, w3) \<Rightarrow>
          if \<not> IsActive user then (Inl ''user account is inactive'', w3)
          else
     (let newAccessToken = GenerateAccessToken A cfg now user;
          newRefreshToken = GenerateRefreshToken A cfg now user;
          newRefreshTokenHash = HashToken A newRefreshToken
      in case StoreRefreshToken A (ID user) newRefreshTokenHash (7 * 24 * time_Hour) now w3 of
           (Some e, w4) \<Rightarrow> (Inl e, w4)
         | (None, w4) \<Rightarrow>
             (Inr \<lparr> rAccessToken = newAccessToken, rRefreshToken = newRefreshToken,
                    rTokenType = ''Bearer'', rExpiresIn = 900 \<rparr>,
              snd (DeleteRefreshToken tokenHash w4))))))))"

subsection \<open>Verification for forward-auth\<close>

definition invalid_response :: VerifyTokenResponse where
  "invalid_response = \<lparr> Valid = False, vUserID = [], vRole = [], vEmail = [] \<rparr>"

text \<open>\<open>VerifyToken\<close> returns a response and an error; \<open>None\<close> is the nil error.\<close>

definition VerifyToken ::
    "authlib \<Rightarrow> JWTConfig \<Rightarrow> int \<Rightarrow> token \<Rightarrow> world
     \<Rightarrow> (VerifyTokenResponse \<times> string option) \<times> world" where
  "VerifyToken A cfg now tok w =
     (case ValidateToken A cfg now tok of
        Inl e \<Rightarrow> ((invalid_response, None), w)
      | Inr claims \<Rightarrow>
     (case IsTokenBlacklisted (HashToken A tok) now w of
        (Inl e, w1) \<Rightarrow> ((invalid_response, None), w1)
      | (Inr True, w1) \<Rightarrow> ((invalid_response, None), w1)
      | (Inr False, w1) \<Rightarrow>
     (case uuid_Parse A (cUserID claims) of
        None \<Rightarrow> ((invalid_response, None), w1)
      | Some userID \<Rightarrow>
     (case GetByID userID w1 of
        (Inl e, w2) \<Rightarrow> ((invalid_response, None), w2)
      | (Inr user, w2) \<Rightarrow>
          if \<not> IsActive user then ((invalid_response, None), w2)
          else ((\<lparr> Valid = True, vUserID = cUserID claims, vRole = cRole claims,
                   vEmail = cEmail claims \<rparr>, None), w2)))))"

subsection \<open>What a successful rotation is\<close>

text \<open>
  The state in which a successful \<open>RefreshToken\<close> ends, the condition under which
  it succeeds, and the response it then gives. They are related to \<open>RefreshToken\<close>
  by the lemmas \<open>RefreshToken_success\<close> and \<open>RefreshToken_succeeds\<close>.
\<close>

definition rotated :: "authlib \<Rightarrow> JWTConfig \<Rightarrow> int \<Rightarrow> token \<Rightarrow> User \<Rightarrow> world \<Rightarrow> world" where
  "rotated A cfg now R user w =
     (let stored = (redis w) (refresh_key (HashToken A (GenerateRefreshToken A cfg now user))
                     \<mapsto> (TokenData (uuid_String A (ID user)) now, now + 7 * 24 * time_Hour))
      in w \<lparr> db_faults := tl (db_faults w),
             redis_faults := tl (tl (tl (tl (redis_faults w)))),
             redis := (if nth_fault (redis_faults w) 3 then stored
                       else stored (refresh_key (HashToken A R) := None)) \<rparr>)"

definition rotation_ok :: "authlib \<Rightarrow> JWTConfig \<Rightarrow> int \<Rightarrow> token \<Rightarrow> User \<Rightarrow> world \<Rightarrow> bool" where
  "rotation_ok A cfg now R user w =
     (\<exists>claims created uid.
        ValidateRefreshToken A cfg now R = Inr claims
      \<and> \<not> nth_fault (redis_faults w) 0
      \<and> redis_live w now (blacklist_key (HashToken A R)) = None
      \<and> \<not> nth_fault (redis_faults w) 1
      \<and> redis_live w now (refresh_key (HashToken A R)) = Some (TokenData (cUserID claims) created)
      \<and> uuid_Parse A (cUserID claims) = Some uid
      \<and> \<not> nth_fault (db_faults w) 0
      \<and> find (\<lambda>u. ID u = uid \<and> IsActive u \<and> DeletedAt u = None) (users w) = Some user
      \<and> \<not> nth_fault (redis_faults w) 2)"

definition rotation_response :: "authlib \<Rightarrow> JWTConfig \<Rightarrow> int \<Rightarrow> User \<Rightarrow> RefreshResponse" where
  "rotation_response A cfg now user =
     \<lparr> rAccessToken = GenerateAccessToken A cfg now user,
       rRefreshToken = GenerateRefreshToken A cfg now user,
       rTokenType = ''Bearer'', rExpiresIn = 900 \<rparr>"

subsection \<open>Reading the state\<close>




section \<open>Profile update (internal/repositories/user_repository.go)\<close>

text \<open>
  \<open>UpdateProfile\<close> works on column names, so here the table \<open>users\<close> is taken at the
  level of columns: a row maps a column name to a value. A value of a field map
  (\<open>interface{}\<close>) or of a column is one of the following.
\<close>

datatype sqlval = VNull | VString string | VInt int | VBool bool | VTime int | VUuid uuid

type_synonym row = "string \<rightharpoonup> sqlval"

text \<open>
  The table, and what the coming statements on it will meet (\<open>True\<close>: the statement
  fails, by a transport error or because the database refuses it).
\<close>

record users_table =
  user_rows :: "row list"
  table_faults :: "bool list"

text \<open>The values of one column, row by row.\<close>

definition column :: "string \<Rightarrow> users_table \<Rightarrow> sqlval option list" where
  "column c db = map (\<lambda>r. r c) (user_rows db)"

text \<open>The map \<open>allowedProfileFields\<close>; a key that is not in a Go map reads as \<open>false\<close>.\<close>

definition allowedProfileFields :: "string \<Rightarrow> bool" where
  "allowedProfileFields key =
     (key \<in> set [''first_name'', ''last_name'', ''bio'', ''phone_number'', ''avatar_url'',
                  ''date_of_birth'', ''gender'', ''country'', ''city'', ''timezone'',
                  ''language'', ''website'', ''linkedin'', ''twitter'', ''github''])"

text \<open>
  A field map is the list of its entries (\<open>None\<close> for the nil map); the keys of a Go
  map are distinct and their order plays no role.
\<close>

definition validateProfileUpdateFields :: "(string \<times> sqlval) list option \<Rightarrow> string option" where
  "validateProfileUpdateFields flds =
     (case flds of
        None \<Rightarrow> Some ''fields map cannot be nil''
      | Some fs \<Rightarrow> if length fs = 0 then Some ''no fields to update'' else None)"

definition filterAllowedFields :: "(string \<times> sqlval) list \<Rightarrow> string + (string \<times> sqlval) list" where
  "filterAllowedFields fs =
     (let updateFields = filter (\<lambda>(key, v). allowedProfileFields key) fs
      in if length updateFields = 0 then Inl ''no valid fields to update'' else Inr updateFields)"

text \<open>gorm's soft-delete condition \<open>deleted_at IS NULL\<close>.\<close>

definition not_deleted :: "row \<Rightarrow> bool" where
  "not_deleted r = (r ''deleted_at'' = None \<or> r ''deleted_at'' = Some VNull)"

text \<open>
  The \<open>UPDATE\<close> issued by \<open>Updates(updateFields)\<close> on one row: the columns of the
  map are assigned, and \<open>updated_at\<close> is set to the time of the statement, by gorm
  (the entity declares \<open>UpdatedAt\<close>) and by the trigger \<open>update_users_updated_at\<close>
  that the initial migration puts on \<open>users\<close>.
\<close>

definition update_row :: "(string \<times> sqlval) list \<Rightarrow> int \<Rightarrow> row \<Rightarrow> row" where
  "update_row updateFields now r = (r ++ map_of updateFields) (''updated_at'' \<mapsto> VTime now)"

definition UpdateProfile ::
    "uuid \<Rightarrow> (string \<times> sqlval) list option \<Rightarrow> int \<Rightarrow> users_table \<Rightarrow> string option \<times> users_table" where
  "UpdateProfile userID flds now db =
     (case validateProfileUpdateFields flds of
        Some e \<Rightarrow> (Some e, db)
      | None \<Rightarrow>
     (case filterAllowedFields (case flds of None \<Rightarrow> [] | Some fs \<Rightarrow> fs) of
        Inl e \<Rightarrow> (Some e, db)
      | Inr updateFields \<Rightarrow>
     (let db1 = db \<lparr> table_faults := tl (table_faults db) \<rparr> in
      if nth_fault (table_faults db) 0 then (Some ''database error'', db1)
      else
     (case find (\<lambda>r. r ''id'' = Some (VUuid userID) \<and> r ''is_active'' = Some (VBool True)
                     \<and> not_deleted r) (user_rows db1) of
        None \<Rightarrow> (Some ''user not found'', db1)
      | Some user \<Rightarrow>
     (let db2 = db1 \<lparr> table_faults := tl (table_faults db1) \<rparr> in
      if nth_fault (table_faults db1) 0 then (Some ''database error'', db2)
      else (None, db2 \<lparr> user_rows :=
              map (\<lambda>r. if r ''id'' = Some (VUuid userID) \<and> not_deleted r
                       then update_row updateFields now r else r) (user_rows db2) \<rparr>))))))"

section \<open>Concrete inputs\<close>

text \<open>
  A stand-in for the library: a 32-byte digest that depends on the length of the
  content, and a \<open>TrimSpace\<close> that leaves its argument alone.
\<close>

definition L0 :: stdlib where
  "L0 = \<lparr> Sum256 = (\<lambda>s i. of_nat (length s + i)), TrimSpace = (\<lambda>s. s) \<rparr>"

text \<open>
  A server that splits a text at its semicolons, with \<open>BEGIN\<close>, \<open>COMMIT\<close> and
  \<open>ROLLBACK\<close> as the transaction control statements, and on which every other
  statement succeeds and adds its text to the table list.
\<close>

definition split_statements :: "string \<Rightarrow> stmt list" where
  "split_statements q =
     map (\<lambda>s. if s = ''BEGIN'' then Begin else if s = ''COMMIT'' then Commit
               else if s = ''ROLLBACK'' then Rollback else Stmt s)
         (filter (\<lambda>s. s \<noteq> []) (Split q (CHR '';'')))"

definition E0 :: "unit sqlenv" where
  "E0 = \<lparr> statements = split_statements,
          exec_sql = (\<lambda>q db. Inr (db \<lparr> tables := tables db @ [q] \<rparr>)),
          find_fails = False, tables_fails = False,
          tx_of = (\<lambda>m. \<lparr> BeginFails = False, CommitFails = False,
                           Elapsed = 2500000, AppliedNow = 1000 \<rparr>) \<rparr>"

text \<open>The same connection, except that the statement \<open>BAD\<close> fails.\<close>

definition E1 :: "unit sqlenv" where
  "E1 = E0 \<lparr> exec_sql := (\<lambda>q db. if q = ''BAD'' then Inl ''syntax error''
                                   else Inr (db \<lparr> tables := tables db @ [q] \<rparr>)) \<rparr>"

definition db0 :: "unit database" where
  "db0 = \<lparr> tables = [''schema_migrations''], schema_migrations = [], rest = () \<rparr>"

definition sqlfile :: "string \<Rightarrow> string \<Rightarrow> DirEntry" where
  "sqlfile name content = \<lparr> Path = ''migrations/'' @ name, BaseName = name, IsDir = False,
                             WalkErr = False, FileData = Some content \<rparr>"

definition dir_unpadded :: "DirEntry list" where
  "dir_unpadded = [sqlfile ''10_b.sql'' ''B'', sqlfile ''9_a.sql'' ''A'']"

definition dir_three :: "DirEntry list" where
  "dir_three = [sqlfile ''001_a.sql'' ''A'', sqlfile ''002_b.sql'' ''BAD'', sqlfile ''003_c.sql'' ''C'']"

definition pending_three :: "Migration list" where
  "pending_three = projr (GetPendingMigrations L0 E1 ''test'' dir_three db0)"

definition dev_row :: MigrationRecord where
  "dev_row = \<lparr> RecVersion = ''001'', RecName = ''init'',
               RecChecksum = calculateChecksum L0 ''CREATE'',
               AppliedAt = 5, AppliedBy = ''migration_manager'', Environment = ''development'',
               ExecutionTimeMs = 2 \<rparr>"

definition db_dev :: "unit database" where
  "db_dev = \<lparr> tables = requiredTables, schema_migrations = [dev_row], rest = () \<rparr>"

definition dir_init :: "DirEntry list" where
  "dir_init = [sqlfile ''001_init.sql'' ''CREATE'']"

text \<open>
  The same artifact with its UP text between \<open>BEGIN;\<close> and \<open>COMMIT;\<close>, as
  \<open>001_initial_schema.sql\<close> and the template of \<open>generateMigrationTemplate\<close> have it.
\<close>

definition dir_init_wrapped :: "DirEntry list" where
  "dir_init_wrapped = [sqlfile ''001_init.sql'' ''BEGIN;CREATE;COMMIT;'']"

text \<open>An artifact with a statement that fails after the \<open>COMMIT;\<close> of its UP text.\<close>

definition dir_commit_bad :: "DirEntry list" where
  "dir_commit_bad = [sqlfile ''001_init.sql'' ''BEGIN;CREATE;COMMIT;BAD'']"

definition dir_init_edited :: "DirEntry list" where
  "dir_init_edited = [sqlfile ''001_init.sql'' ''CREATE TABLE'']"

text \<open>A stand-in for the libraries of the auth engine, and a configuration.\<close>

definition A0 :: authlib where
  "A0 = \<lparr> hmac_sign = (\<lambda>alg key cl. key @ ''/'' @ alg),
          HashToken = (\<lambda>t. case t of Malformed s \<Rightarrow> s
                           | Wellformed j \<Rightarrow>
                               (case (claim_string (Claims j) ''type'', claim_number (Claims j) ''iat'') of
                                  (Some ty, Some n) \<Rightarrow> ty @ replicate (nat n) CHR ''i''
                                | _ \<Rightarrow> ''?'')),
          uuid_String = (\<lambda>n. replicate n CHR ''u''),
          uuid_Parse = (\<lambda>s. if list_all (\<lambda>c. c = CHR ''u'') s then Some (length s) else None),
          CompareHashAndPassword = (\<lambda>h p. h = ''hash:'' @ p),
          ParseDuration = (\<lambda>s. if s = ''15m'' then Some (15 * time_Minute)
                                else if s = ''168h'' then Some (168 * time_Hour) else None),
          ToLower = (\<lambda>s. s) \<rparr>"

definition cfg0 :: JWTConfig where
  "cfg0 = \<lparr> AccessSecret = ''a-secret'', RefreshSecret = ''r-secret'', Issuer = ''auth-service'',
            AccessExpiry = ''15m'', RefreshExpiry = ''168h'' \<rparr>"

text \<open>A configuration that sets the same text for both secrets.\<close>

definition cfg_same :: JWTConfig where
  "cfg_same = cfg0 \<lparr> RefreshSecret := ''a-secret'' \<rparr>"

definition alice :: User where
  "alice = \<lparr> ID = 1, Email = ''a@x'', Username = ''a'', PasswordHash = ''hash:p@ssw0rd'',
             Role = ''user'', IsActive = True, EmailVerified = False, LastLoginAt = None,
             LastLoginIP = None, FailedLoginAttempts = 0, LockedUntil = None,
             CreatedAt = 0, UpdatedAt = 0, DeletedAt = None \<rparr>"

definition w0 :: world where
  "w0 = \<lparr> users = [alice], sessions = [], login_attempts = [], redis = Map.empty,
          db_faults = [], redis_faults = [] \<rparr>"

text \<open>Instants: 5, 7 and 9 seconds after the epoch.\<close>

definition t5 :: int where "t5 = 5 * time_Second"
definition t7 :: int where "t7 = 7 * time_Second"

text \<open>The state after a login at \<open>t5\<close>, and the refresh token it issued.\<close>

definition w_login :: world where
  "w_login = snd (Login A0 cfg0 t5 ''a@x'' ''p@ssw0rd'' ''10.0.0.1'' ''curl'' w0)"

definition tokR :: token where
  "tokR = GenerateRefreshToken A0 cfg0 t5 alice"

definition tokA :: token where
  "tokA = GenerateAccessToken A0 cfg0 t5 alice"

text \<open>The state after the login in which the fourth call to the ephemeral store will fail.\<close>

definition w_delfail :: world where
  "w_delfail = w_login \<lparr> redis_faults := [False, False, False, True] \<rparr>"

text \<open>The state after the login in which the next call to the ephemeral store will fail.\<close>

definition w_getfail :: world where
  "w_getfail = w_login \<lparr> redis_faults := [True] \<rparr>"








text \<open>A table \<open>users\<close> with one row, at the level of columns.\<close>

definition row_alice :: row where
  "row_alice = [''id'' \<mapsto> VUuid 1, ''is_active'' \<mapsto> VBool True,
                ''password_hash'' \<mapsto> VString ''hash:p@ssw0rd'',
                ''first_name'' \<mapsto> VString ''A'', ''updated_at'' \<mapsto> VTime 0]"

definition table0 :: users_table where
  "table0 = \<lparr> user_rows = [row_alice], table_faults = [] \<rparr>"

definition fields_mixed :: "(string \<times> sqlval) list option" where
  "fields_mixed = Some [(''first_name'', VString ''Al''), (''password_hash'', VString ''evil'')]"

section \<open>Properties of the migrator\<close>

subsection \<open>Shared lemmas\<close>

lemma applyMigration_ResMigration:
  "ResMigration (fst (applyMigration E env m db)) = m"
  by (simp add: applyMigration_def Let_def split: prod.splits option.splits)

lemma insert_record_rows:
  "insert_record r tx = Inr db' \<Longrightarrow>
     db' = tx \<lparr> schema_migrations := schema_migrations tx @ [r] \<rparr>
     \<and> (\<forall>r' \<in> set (schema_migrations tx). RecVersion r' \<noteq> RecVersion r)"
  by (auto simp: insert_record_def split: if_splits)

lemma apply_pending_shape:
  "apply_pending E env ms acc db = (results, err, db') \<Longrightarrow>
     \<exists>rs. results = acc @ rs \<and> map ResMigration rs = take (length rs) ms
        \<and> (\<forall>r \<in> set (butlast rs). Success r)
        \<and> (err = None \<longrightarrow> length rs = length ms \<and> (\<forall>r \<in> set rs. Success r))
        \<and> (err \<noteq> None \<longrightarrow> rs \<noteq> [] \<and> \<not> Success (last rs))"
proof (induction ms arbitrary: acc db)
  case Nil
  then show ?case by simp
next
  case (Cons m ms)
  obtain result db1 where am: "applyMigration E env m db = (result, db1)"
    by (cases "applyMigration E env m db")
  have rm: "ResMigration result = m"
    using applyMigration_ResMigration [of E env m db] am by simp
  show ?case
  proof (cases "Success result")
    case False
    with Cons.prems am rm show ?thesis by (intro exI [of _ "[result]"]) auto
  next
    case True
    with Cons.prems am have "apply_pending E env ms (acc @ [result]) db1 = (results, err, db')"
      by simp
    from Cons.IH [OF this] obtain rs where
      rs: "results = (acc @ [result]) @ rs" "map ResMigration rs = take (length rs) ms"
          "\<forall>r \<in> set (butlast rs). Success r"
          "err = None \<longrightarrow> length rs = length ms \<and> (\<forall>r \<in> set rs. Success r)"
          "err \<noteq> None \<longrightarrow> rs \<noteq> [] \<and> \<not> Success (last rs)"
      by blast
    show ?thesis
      using rs True rm by (intro exI [of _ "result # rs"]) (auto dest: in_set_butlastD)
  qed
qed

lemma pending_sorted:
  "GetPendingMigrations L E env dir db = Inr pending \<Longrightarrow>
     sorted (map (\<lambda>m. Atoi (Version m)) pending)"
  by (auto simp: GetPendingMigrations_def loadMigrationFiles_def sorted_filter
           split: sum.splits)

lemma hex_digit_in: "hex_digit n \<in> set ''0123456789abcdef''"
  unfolding hex_digit_def by (rule nth_mem) simp

text \<open>The checksum is 64 characters, each a lower-case hexadecimal digit.\<close>

lemma checksum_format:
  "length (calculateChecksum L content) = 64
   \<and> set (calculateChecksum L content) \<subseteq> set ''0123456789abcdef''"
proof
  show "length (calculateChecksum L content) = 64"
    by (simp add: calculateChecksum_def length_concat hex_byte_def comp_def sum_list_triv)
  have "\<And>b. set (hex_byte b) \<subseteq> set ''0123456789abcdef''"
    using hex_digit_in by (simp add: hex_byte_def)
  then show "set (calculateChecksum L content) \<subseteq> set ''0123456789abcdef''"
    by (auto simp: calculateChecksum_def simp del: set_simps list.set)
qed

text \<open>
  A version recorded for the current environment is never pending, whatever the
  content or checksum of the artifact on disk.
\<close>

lemma applied_not_pending:
  "GetPendingMigrations L E env dir db = Inr pending \<Longrightarrow>
   r \<in> set (schema_migrations db) \<Longrightarrow> Environment r = env \<Longrightarrow>
   \<forall>m \<in> set pending. Version m \<noteq> RecVersion r"
  by (auto simp: GetPendingMigrations_def getAppliedVersions_def split: sum.splits if_splits)

text \<open>The pending artifacts depend on the tracking rows of the current environment only.\<close>

lemma pending_own_environment:
  "filter (\<lambda>r. Environment r = env) (schema_migrations db1)
     = filter (\<lambda>r. Environment r = env) (schema_migrations db2) \<Longrightarrow>
   GetPendingMigrations L E env dir db1 = GetPendingMigrations L E env dir db2"
  by (cases "loadMigrationFiles L dir")
     (simp_all add: GetPendingMigrations_def getAppliedVersions_def)

subsection \<open>Atomic application of one artifact\<close>

text \<open>
  Statements on the data leave the committed state alone and the block open, as long
  as no transaction control statement is among them.
\<close>

lemma run_all_plain:
  "\<forall>s \<in> set ss. \<exists>q. s = Stmt q \<Longrightarrow> view c \<noteq> None \<Longrightarrow> explicit c \<Longrightarrow>
   run_all E ss c = (r, c') \<Longrightarrow>
     committed c' = committed c \<and> view c' \<noteq> None \<and> explicit c'"
proof (induction ss arbitrary: c)
  case Nil
  then show ?case by simp
next
  case (Cons s ss)
  from Cons.prems(1) obtain q where s: "s = Stmt q" by auto
  show ?case
  proof (cases "exec_sql E q (the (view c))")
    case (Inl e)
    with Cons.prems s show ?thesis
      by (auto simp: run_stmt_def data_stmt_def)
  next
    case (Inr v')
    with Cons.prems s have "run_all E ss (c \<lparr> view := Some v' \<rparr>) = (r, c')"
      by (auto simp: run_stmt_def data_stmt_def)
    from Cons.IH [OF _ _ _ this] Cons.prems(1,3) show ?thesis by simp
  qed
qed

text \<open>
  For an artifact whose UP text has no transaction control statement,
  \<open>applyMigration\<close> is atomic: a failure leaves the database as it was, and a success
  commits what the UP text made of it together with the tracking row.
\<close>

lemma applyMigration_plain_atomic:
  assumes "\<forall>s \<in> set (statements E (UpSQL m)). \<exists>q. s = Stmt q"
      and "applyMigration E env m db = (result, db')"
  shows "(Success result \<and> Error result = None \<and>
            (\<exists>tx1. fst (run_all E (statements E (UpSQL m))
                           \<lparr> committed = db, view = Some db, explicit = True \<rparr>) = None \<and>
                   view (snd (run_all E (statements E (UpSQL m))
                           \<lparr> committed = db, view = Some db, explicit = True \<rparr>)) = Some tx1 \<and>
                   db' = tx1 \<lparr> schema_migrations :=
                             schema_migrations tx1 @ [tracking_record env (tx_of E m) m] \<rparr>))
         \<or> (\<not> Success result \<and> Error result \<noteq> None \<and> db' = db)"
proof -
  define c0 :: "'a conn" where "c0 = \<lparr> committed = db, view = Some db, explicit = True \<rparr>"
  obtain r c1 where ra: "run_all E (statements E (UpSQL m)) c0 = (r, c1)"
    by (cases "run_all E (statements E (UpSQL m)) c0")
  from run_all_plain [OF assms(1) _ _ ra]
  have c1: "committed c1 = db" "view c1 \<noteq> None" "explicit c1"
    by (simp_all add: c0_def)
  then obtain tx1 where tx1: "view c1 = Some tx1" by auto
  show ?thesis
    using assms(2) ra c1 tx1 unfolding c0_def
    by (auto simp: applyMigration_def Let_def conn_exec_def conn_insert_def data_stmt_def
                   end_text_def commit_conn_def rollback_conn_def
             split: if_splits sum.splits option.splits prod.splits
             dest!: insert_record_rows)
qed

text \<open>
  C2. The claim asks that, when a step of \<open>applyMigration\<close> fails, neither the schema
  change nor the tracking row is visible afterwards. At this input the schema change
  stays visible. The UP text of the artifact is \<open>BEGIN;CREATE;COMMIT;\<close>. Its \<open>BEGIN\<close>
  finds the block of \<open>applyMigration\<close> open, its \<open>COMMIT\<close> ends that block and commits
  the new table, and the \<open>INSERT\<close> of the tracking row runs after the block: it is
  refused (the version is recorded already, for another environment),
  \<open>applyMigration\<close> reports the failure, and the rollback finds nothing to undo. The
  database is left with the new table and without a tracking row for the artifact.
  The same happens when the UP text itself fails after its \<open>COMMIT\<close>: with the UP
  text \<open>BEGIN;CREATE;COMMIT;BAD\<close> on an empty tracking table, the failure of \<open>BAD\<close> is
  reported and the new table stays.
\<close>

theorem applyMigration_commit_in_up_text:
  "map UpSQL (projr (GetPendingMigrations L0 E0 ''test'' dir_init_wrapped db_dev))
     = [''BEGIN;CREATE;COMMIT;'']
   \<and> statements E0 ''BEGIN;CREATE;COMMIT;'' = [Begin, Stmt ''CREATE'', Commit]
   \<and> map Success (fst (ApplyMigrations L0 E0 ''test'' dir_init_wrapped db_dev)) = [False]
   \<and> map Error (fst (ApplyMigrations L0 E0 ''test'' dir_init_wrapped db_dev))
       = [Some ''failed to record migration: duplicate key value violates unique constraint'']
   \<and> tables (snd (snd (ApplyMigrations L0 E0 ''test'' dir_init_wrapped db_dev)))
       = tables db_dev @ [''CREATE'']
   \<and> schema_migrations (snd (snd (ApplyMigrations L0 E0 ''test'' dir_init_wrapped db_dev)))
       = schema_migrations db_dev
   \<and> snd (snd (ApplyMigrations L0 E0 ''test'' dir_init_wrapped db_dev)) \<noteq> db_dev
   \<and> statements E1 ''BEGIN;CREATE;COMMIT;BAD'' = [Begin, Stmt ''CREATE'', Commit, Stmt ''BAD'']
   \<and> map Success (fst (ApplyMigrations L0 E1 ''test'' dir_commit_bad db0)) = [False]
   \<and> map Error (fst (ApplyMigrations L0 E1 ''test'' dir_commit_bad db0))
       = [Some ''failed to execute migration SQL: syntax error'']
   \<and> tables (snd (snd (ApplyMigrations L0 E1 ''test'' dir_commit_bad db0)))
       = tables db0 @ [''CREATE'']
   \<and> schema_migrations (snd (snd (ApplyMigrations L0 E1 ''test'' dir_commit_bad db0))) = []"
  by code_simp

subsection \<open>Order of application\<close>

text \<open>
  C8, as stated, fails: the artifacts are not applied in the order of their version
  strings. With the files \<open>10_b.sql\<close> and \<open>9_a.sql\<close>, version \<open>9\<close> is applied before
  version \<open>10\<close>, although the string \<open>10\<close> sorts before the string \<open>9\<close>.
\<close>

theorem ApplyMigrations_string_order_counterexample:
  "map (Version \<circ> ResMigration) (fst (ApplyMigrations L0 E0 ''test'' dir_unpadded db0))
     = [''9'', ''10'']
   \<and> \<not> sorted (map (Version \<circ> ResMigration)
                  (fst (ApplyMigrations L0 E0 ''test'' dir_unpadded db0)))"
  by code_simp

text \<open>
  C8, amended. The pending artifacts are ordered by the integer value that
  \<open>strconv.Atoi\<close> gives for their version (0 when the version is not a number);
  \<open>ApplyMigrations\<close> applies them in that order: its results are, in order, the
  results for a prefix of the pending list, every result but the last is a success,
  without an error the prefix is the whole list, and with an error the last result
  is the failure at which it stopped.
\<close>

theorem ApplyMigrations_numeric_order:
  assumes "GetPendingMigrations L E env dir db = Inr pending"
      and "ApplyMigrations L E env dir db = (results, err, db')"
  shows "sorted (map (\<lambda>m. Atoi (Version m)) pending)
       \<and> map ResMigration results = take (length results) pending
       \<and> (\<forall>r \<in> set (butlast results). Success r)
       \<and> (err = None \<longrightarrow> length results = length pending \<and> (\<forall>r \<in> set results. Success r))
       \<and> (err \<noteq> None \<longrightarrow> results \<noteq> [] \<and> \<not> Success (last results))"
proof (cases "pending = []")
  case True
  with assms show ?thesis by (simp add: ApplyMigrations_def)
next
  case False
  with assms have "apply_pending E env pending [] db = (results, err, db')"
    by (simp add: ApplyMigrations_def)
  from apply_pending_shape [OF this] pending_sorted [OF assms(1)]
  show ?thesis by auto
qed

text \<open>
  An instance with three artifacts of which the second fails: the first two are
  attempted, in order, and the third is not.
\<close>

theorem ApplyMigrations_numeric_order_witness:
  "GetPendingMigrations L0 E1 ''test'' dir_three db0 = Inr pending_three
   \<and> map Version pending_three = [''001'', ''002'', ''003'']
   \<and> map ResMigration (fst (ApplyMigrations L0 E1 ''test'' dir_three db0)) = take 2 pending_three
   \<and> map Success (fst (ApplyMigrations L0 E1 ''test'' dir_three db0)) = [True, False]
   \<and> fst (snd (ApplyMigrations L0 E1 ''test'' dir_three db0)) \<noteq> None"
proof -
  have h1: "GetPendingMigrations L0 E1 ''test'' dir_three db0 = Inr pending_three"
    by code_simp
  have h2: "ApplyMigrations L0 E1 ''test'' dir_three db0
              = (fst (ApplyMigrations L0 E1 ''test'' dir_three db0),
                 fst (snd (ApplyMigrations L0 E1 ''test'' dir_three db0)),
                 snd (snd (ApplyMigrations L0 E1 ''test'' dir_three db0)))"
    by simp
  have v: "map Version pending_three = [''001'', ''002'', ''003'']"
    by code_simp
  have s: "map Success (fst (ApplyMigrations L0 E1 ''test'' dir_three db0)) = [True, False]"
    by code_simp
  have e: "fst (snd (ApplyMigrations L0 E1 ''test'' dir_three db0)) \<noteq> None"
    by code_simp
  from s have len: "length (fst (ApplyMigrations L0 E1 ''test'' dir_three db0)) = 2"
    by (metis length_map length_Cons list.size(3) numeral_2_eq_2)
  from ApplyMigrations_numeric_order [OF h1 h2] len
  have "map ResMigration (fst (ApplyMigrations L0 E1 ''test'' dir_three db0)) = take 2 pending_three"
    by simp
  with h1 v s e show ?thesis by simp
qed

subsection \<open>Tracking per environment\<close>

text \<open>
  C4. The claim asks that a version recorded for one environment can be recorded
  independently for another. At this input it cannot: version \<open>001\<close> is recorded for
  \<open>development\<close>; for \<open>test\<close> it is pending (the rows of \<open>development\<close> are not
  read), its UP text runs, the tracking insert is refused by the uniqueness of
  \<open>version\<close>, and the table is left without a row for \<open>test\<close>.
\<close>

theorem second_environment_cannot_record:
  "map Version (projr (GetPendingMigrations L0 E0 ''test'' dir_init db_dev)) = [''001'']
   \<and> map Success (fst (ApplyMigrations L0 E0 ''test'' dir_init db_dev)) = [False]
   \<and> map Error (fst (ApplyMigrations L0 E0 ''test'' dir_init db_dev))
       = [Some ''failed to record migration: duplicate key value violates unique constraint'']
   \<and> snd (snd (ApplyMigrations L0 E0 ''test'' dir_init db_dev)) = db_dev
   \<and> map Environment (schema_migrations db_dev) = [''development'']"
  by code_simp

subsection \<open>Checksums\<close>

text \<open>
  C5. The claim asks that an applied artifact whose content no longer hashes to the
  recorded checksum is reported by validation. At this input it is not: version
  \<open>001\<close> is recorded for \<open>development\<close>, the file on disk has been edited so that
  its checksum differs from the recorded one, and \<open>ValidateSchema\<close> returns no error.
  The edited artifact is not pending, so it is not applied again.
\<close>

theorem ValidateSchema_ignores_checksum:
  "map Version (projr (loadMigrationFiles L0 dir_init_edited))
     = map RecVersion (schema_migrations db_dev)
   \<and> map Checksum (projr (loadMigrationFiles L0 dir_init_edited))
     \<noteq> map RecChecksum (schema_migrations db_dev)
   \<and> ValidateSchema L0 E0 ''development'' dir_init_edited db_dev = None
   \<and> GetPendingMigrations L0 E0 ''development'' dir_init_edited db_dev = Inr []"
  by code_simp

section \<open>Properties of the credential signer and of the auth engine\<close>

subsection \<open>Shared lemmas\<close>

lemma nth_fault_tl: "nth_fault (tl t) n = nth_fault t (Suc n)"
  by (cases t) (auto simp: nth_fault_def)

lemma IsTokenBlacklisted_eq:
  "IsTokenBlacklisted h now w =
     (if nth_fault (redis_faults w) 0 then Inl ''redis error''
      else Inr (redis_live w now (blacklist_key h) \<noteq> None),
      w \<lparr> redis_faults := tl (redis_faults w) \<rparr>)"
  by (auto simp: IsTokenBlacklisted_def redis_call_def redis_live_def split: option.splits)

lemma GetRefreshTokenData_eq:
  "GetRefreshTokenData h now w =
     (if nth_fault (redis_faults w) 0 then Inl ''redis error''
      else (case redis_live w now (refresh_key h) of
              None \<Rightarrow> Inl ''refresh token not found''
            | Some (TokenData userID created) \<Rightarrow> Inr userID
            | Some _ \<Rightarrow> Inl ''invalid token data''),
      w \<lparr> redis_faults := tl (redis_faults w) \<rparr>)"
  by (auto simp: GetRefreshTokenData_def redis_call_def redis_live_def
           split: option.splits rvalue.splits)

lemma GetByID_eq:
  "GetByID uid w =
     (if nth_fault (db_faults w) 0 then Inl ''database error''
      else (case find (\<lambda>u. ID u = uid \<and> IsActive u \<and> DeletedAt u = None) (users w) of
              None \<Rightarrow> Inl ''user not found''
            | Some user \<Rightarrow> Inr user),
      w \<lparr> db_faults := tl (db_faults w) \<rparr>)"
  by (auto simp: GetByID_def db_call_def split: option.splits)

lemma StoreRefreshToken_eq:
  "StoreRefreshToken A uid h expiry now w =
     (if nth_fault (redis_faults w) 0 then Some ''redis error'' else None,
      if nth_fault (redis_faults w) 0 then w \<lparr> redis_faults := tl (redis_faults w) \<rparr>
      else w \<lparr> redis_faults := tl (redis_faults w),
               redis := (redis w) (refresh_key h \<mapsto> (TokenData (uuid_String A uid) now, now + expiry)) \<rparr>)"
  by (auto simp: StoreRefreshToken_def redis_call_def)

lemma DeleteRefreshToken_eq:
  "DeleteRefreshToken h w =
     (if nth_fault (redis_faults w) 0 then Some ''redis error'' else None,
      if nth_fault (redis_faults w) 0 then w \<lparr> redis_faults := tl (redis_faults w) \<rparr>
      else w \<lparr> redis_faults := tl (redis_faults w),
               redis := (redis w) (refresh_key h := None) \<rparr>)"
  by (auto simp: DeleteRefreshToken_def redis_call_def)

lemmas store_eqs = IsTokenBlacklisted_eq GetRefreshTokenData_eq GetByID_eq StoreRefreshToken_eq
  DeleteRefreshToken_eq

lemma find_ID: "find P xs = Some x \<Longrightarrow> P x"
  by (auto simp: find_Some_iff)

lemma RefreshToken_success:
  assumes "RefreshToken A cfg now R w = (Inr resp, w')"
  shows "\<exists>user. rotation_ok A cfg now R user w \<and> resp = rotation_response A cfg now user
            \<and> w' = rotated A cfg now R user w"
proof -
  from assms obtain claims where v: "ValidateRefreshToken A cfg now R = Inr claims"
    by (cases "ValidateRefreshToken A cfg now R") (auto simp: RefreshToken_def)
  show ?thesis
    using assms v
    unfolding RefreshToken_def store_eqs rotation_ok_def rotated_def rotation_response_def Let_def
    by (auto simp: nth_fault_tl redis_live_def numeral_3_eq_3 numeral_2_eq_2
             split: if_splits option.splits rvalue.splits prod.splits)
qed

lemma RefreshToken_succeeds:
  assumes "rotation_ok A cfg now R user w"
  shows "RefreshToken A cfg now R w = (Inr (rotation_response A cfg now user), rotated A cfg now R user w)"
proof -
  from assms have "IsActive user"
    by (auto simp: rotation_ok_def dest: find_ID)
  with assms show ?thesis
  unfolding RefreshToken_def store_eqs rotation_ok_def rotated_def rotation_response_def Let_def
  by (auto simp: nth_fault_tl redis_live_def numeral_3_eq_3 numeral_2_eq_2
             split: if_splits option.splits rvalue.splits prod.splits)
qed

lemma refresh_key_inj [simp]: "(refresh_key h = refresh_key h') = (h = h')"
  by (simp add: refresh_key_def)

lemma refresh_blacklist_key [simp]:
  "refresh_key h \<noteq> blacklist_key h'" "blacklist_key h' \<noteq> refresh_key h"
  by (simp_all add: refresh_key_def blacklist_key_def)

lemma time_Hour_pos: "0 < time_Hour"
  by (simp add: time_Hour_def time_Minute_def time_Second_def)

lemma nth_fault_update: "i \<noteq> n \<Longrightarrow> nth_fault (t[n := b]) i = nth_fault t i"
  by (simp add: nth_fault_def)


text \<open>A refresh token is accepted by \<open>ValidateRefreshToken\<close> until its \<open>exp\<close>.\<close>

lemma fresh_refresh_token_valid:
  assumes "now2 < Unix (now + parseDuration A (RefreshExpiry cfg)) * time_Second"
  shows "\<exists>claims. ValidateRefreshToken A cfg now2 (GenerateRefreshToken A cfg now user) = Inr claims
            \<and> cUserID claims = uuid_String A (ID user)"
  using assms
  by (simp add: ValidateRefreshToken_def validate_with_def jwt_Parse_def key_func_def
        hmac_methods_def GenerateRefreshToken_def SignedString_def token_claims_def
        validate_claims_def validate_nbf_def claim_string_def claim_number_def
        mapClaimsToJWTClaims_def)


text \<open>
  A new refresh token whose record lies under another key than the record of the
  presented one succeeds at its next use.
\<close>

lemma fresh_token_usable:
  assumes s: "RefreshToken A cfg now R w = (Inr resp, w')"
      and fresh: "HashToken A (rRefreshToken resp) \<noteq> HashToken A R"
      and exp: "now2 < Unix (now + parseDuration A (RefreshExpiry cfg)) * time_Second"
      and ttl: "now2 < now + 7 * 24 * time_Hour"
      and bl: "redis_live w now2 (blacklist_key (HashToken A (rRefreshToken resp))) = None"
      and rt: "\<forall>u. uuid_Parse A (uuid_String A u) = Some u"
      and h: "\<not> nth_fault (redis_faults w') 0" "\<not> nth_fault (redis_faults w') 1"
             "\<not> nth_fault (redis_faults w') 2" "\<not> nth_fault (db_faults w') 0"
  shows "\<exists>resp2 w2. RefreshToken A cfg now2 (rRefreshToken resp) w' = (Inr resp2, w2)"
proof -
  from RefreshToken_success [OF s] obtain user where
    ok: "rotation_ok A cfg now R user w" and r: "resp = rotation_response A cfg now user"
    and w': "w' = rotated A cfg now R user w"
    by blast
  let ?R' = "GenerateRefreshToken A cfg now user"
  have R': "rRefreshToken resp = ?R'" by (simp add: r rotation_response_def)
  from fresh_refresh_token_valid [OF exp, of user] obtain claims where
    v: "ValidateRefreshToken A cfg now2 ?R' = Inr claims"
    and cu: "cUserID claims = uuid_String A (ID user)"
    by blast
  from ok obtain uid where
    f: "find (\<lambda>u. ID u = uid \<and> IsActive u \<and> DeletedAt u = None) (users w) = Some user"
    by (auto simp: rotation_ok_def)
  then have "ID user = uid" by (auto dest: find_ID)
  with f have f': "find (\<lambda>u. ID u = ID user \<and> IsActive u \<and> DeletedAt u = None) (users w') = Some user"
    by (simp add: w' rotated_def Let_def)
  have b': "redis_live w' now2 (blacklist_key (HashToken A ?R')) = None"
    using bl by (simp add: w' R' rotated_def Let_def redis_live_def)
  have l': "redis_live w' now2 (refresh_key (HashToken A ?R'))
              = Some (TokenData (uuid_String A (ID user)) now)"
    using fresh ttl by (simp add: w' R' rotated_def Let_def redis_live_def)
  have "rotation_ok A cfg now2 ?R' user w'"
    unfolding rotation_ok_def using v cu b' l' f' rt h by auto
  from RefreshToken_succeeds [OF this] R' show ?thesis by simp
qed

lemma validate_with_accepts:
  assumes "validate_with A secret expected now t = Inr c"
  shows "signed_with A secret t \<and> type_claim t = Some expected \<and> cType c = expected"
proof -
  from assms obtain j where t: "t = Wellformed j"
    by (cases t) (auto simp: validate_with_def jwt_Parse_def)
  from assms t have p: "jwt_Parse A now (key_func secret) (Wellformed j) = Inr j"
    by (auto simp: validate_with_def jwt_Parse_def split: sum.splits if_splits option.splits)
  then have sg: "Signature j = hmac_sign A (Alg j) secret (Claims j)"
    by (auto simp: jwt_Parse_def key_func_def split: sum.splits if_splits option.splits)
  from assms t p have ty: "claim_string (Claims j) ''type'' = Some expected"
    and mc: "mapClaimsToJWTClaims (Claims j) = Inr c"
    by (auto simp: validate_with_def split: option.splits if_splits)
  from mc ty have "cType c = expected"
    by (auto simp: mapClaimsToJWTClaims_def split: option.splits)
  with sg ty t show ?thesis
    by (simp add: signed_with_def type_claim_def)
qed

lemma GetByID_Inr:
  "GetByID uid w = (Inr user, w') \<Longrightarrow>
     user \<in> set (users w) \<and> ID user = uid \<and> IsActive user \<and> DeletedAt user = None"
  by (auto simp: GetByID_eq find_Some_iff split: if_splits option.splits)

lemma IsTokenBlacklisted_False:
  "IsTokenBlacklisted h now w = (Inr False, w') \<Longrightarrow>
     redis_live w now (blacklist_key h) = None \<and> \<not> nth_fault (redis_faults w) 0
     \<and> users w' = users w"
  by (auto simp: IsTokenBlacklisted_eq split: if_splits)

lemma ValidateToken_unexpired:
  "ValidateToken A cfg now tok = Inr c \<Longrightarrow>
     \<exists>j. tok = Wellformed j
        \<and> (\<forall>e. map_of (Claims j) ''exp'' = Some (JNumber e) \<longrightarrow> now < e * time_Second)"
  by (cases tok)
     (auto simp: ValidateToken_def validate_with_def jwt_Parse_def validate_claims_def
           split: sum.splits if_splits option.splits jvalue.splits)

lemma VerifyToken_cases:
  assumes "VerifyToken A cfg now tok w = ((resp, err), w')"
  shows "err = None \<and>
     (resp = invalid_response \<or>
      (\<exists>claims uid user w1 w2. ValidateToken A cfg now tok = Inr claims
          \<and> IsTokenBlacklisted (HashToken A tok) now w = (Inr False, w1)
          \<and> uuid_Parse A (cUserID claims) = Some uid
          \<and> GetByID uid w1 = (Inr user, w2)
          \<and> resp = \<lparr> Valid = True, vUserID = cUserID claims, vRole = cRole claims,
                     vEmail = cEmail claims \<rparr>))"
  using assms unfolding VerifyToken_def
  by (auto split: sum.splits prod.splits bool.splits option.splits if_splits)

subsection \<open>Key isolation\<close>

text \<open>
  C6, as stated, fails for a configuration that sets the same text for both secrets
  (the configuration is accepted: only an empty access secret is refused). The access
  token issued under it is signed with the refresh secret, and \<open>ValidateToken\<close>
  accepts it.
\<close>

theorem verify_isolation_counterexample:
  "AccessSecret cfg_same \<noteq> [] \<and> RefreshSecret cfg_same = AccessSecret cfg_same
   \<and> signed_with A0 (RefreshSecret cfg_same) (GenerateAccessToken A0 cfg_same t5 alice)
   \<and> \<not> isl (ValidateToken A0 cfg_same t7 (GenerateAccessToken A0 cfg_same t5 alice))"
  by code_simp

text \<open>
  C6, amended. \<open>ValidateToken\<close> accepts a token only if it is signed with the access
  secret and its \<open>type\<close> claim is \<open>access\<close>; \<open>ValidateRefreshToken\<close> accepts a token
  only if it is signed with the refresh secret and its \<open>type\<close> claim is \<open>refresh\<close>. A
  token carrying the other \<open>type\<close> claim is refused with an error. A token signed with
  the other secret is refused with an error, provided that for this token the two
  secrets give different signatures.
\<close>

theorem verify_isolation:
  "(ValidateToken A cfg now t = Inr c \<longrightarrow>
      signed_with A (AccessSecret cfg) t \<and> type_claim t = Some ''access'')
   \<and> (ValidateRefreshToken A cfg now t = Inr c \<longrightarrow>
      signed_with A (RefreshSecret cfg) t \<and> type_claim t = Some ''refresh'')
   \<and> (type_claim t = Some ''refresh'' \<longrightarrow> isl (ValidateToken A cfg now t))
   \<and> (type_claim t = Some ''access'' \<longrightarrow> isl (ValidateRefreshToken A cfg now t))
   \<and> (signed_with A (RefreshSecret cfg) t
        \<and> (\<forall>j. t = Wellformed j \<longrightarrow>
               hmac_sign A (Alg j) (RefreshSecret cfg) (Claims j)
                 \<noteq> hmac_sign A (Alg j) (AccessSecret cfg) (Claims j))
      \<longrightarrow> isl (ValidateToken A cfg now t))
   \<and> (signed_with A (AccessSecret cfg) t
        \<and> (\<forall>j. t = Wellformed j \<longrightarrow>
               hmac_sign A (Alg j) (RefreshSecret cfg) (Claims j)
                 \<noteq> hmac_sign A (Alg j) (AccessSecret cfg) (Claims j))
      \<longrightarrow> isl (ValidateRefreshToken A cfg now t))"
proof -
  have a: "\<And>c. ValidateToken A cfg now t = Inr c \<Longrightarrow>
             signed_with A (AccessSecret cfg) t \<and> type_claim t = Some ''access''"
    using validate_with_accepts [of A "AccessSecret cfg" "''access''" now t]
    by (simp add: ValidateToken_def)
  have r: "\<And>c. ValidateRefreshToken A cfg now t = Inr c \<Longrightarrow>
             signed_with A (RefreshSecret cfg) t \<and> type_claim t = Some ''refresh''"
    using validate_with_accepts [of A "RefreshSecret cfg" "''refresh''" now t]
    by (simp add: ValidateRefreshToken_def)
  have sep: "\<not> (signed_with A (RefreshSecret cfg) t \<and> signed_with A (AccessSecret cfg) t)"
    if "\<forall>j. t = Wellformed j \<longrightarrow>
               hmac_sign A (Alg j) (RefreshSecret cfg) (Claims j)
                 \<noteq> hmac_sign A (Alg j) (AccessSecret cfg) (Claims j)"
    using that by (cases t) (auto simp: signed_with_def)
  have 1: "ValidateToken A cfg now t = Inr c \<longrightarrow>
      signed_with A (AccessSecret cfg) t \<and> type_claim t = Some ''access''"
    using a by blast
  have 2: "ValidateRefreshToken A cfg now t = Inr c \<longrightarrow>
      signed_with A (RefreshSecret cfg) t \<and> type_claim t = Some ''refresh''"
    using r by blast
  have 3: "type_claim t = Some ''refresh'' \<longrightarrow> isl (ValidateToken A cfg now t)"
    using a by (cases "ValidateToken A cfg now t") auto
  have 4: "type_claim t = Some ''access'' \<longrightarrow> isl (ValidateRefreshToken A cfg now t)"
    using r by (cases "ValidateRefreshToken A cfg now t") auto
  have 5: "signed_with A (RefreshSecret cfg) t
        \<and> (\<forall>j. t = Wellformed j \<longrightarrow>
               hmac_sign A (Alg j) (RefreshSecret cfg) (Claims j)
                 \<noteq> hmac_sign A (Alg j) (AccessSecret cfg) (Claims j))
      \<longrightarrow> isl (ValidateToken A cfg now t)"
    using a sep by (cases "ValidateToken A cfg now t") auto
  have 6: "signed_with A (AccessSecret cfg) t
        \<and> (\<forall>j. t = Wellformed j \<longrightarrow>
               hmac_sign A (Alg j) (RefreshSecret cfg) (Claims j)
                 \<noteq> hmac_sign A (Alg j) (AccessSecret cfg) (Claims j))
      \<longrightarrow> isl (ValidateRefreshToken A cfg now t)"
    using r sep by (cases "ValidateRefreshToken A cfg now t") auto
  from 1 2 3 4 5 6 show ?thesis by blast
qed

text \<open>
  An instance: the refresh token issued for a user is refused by \<open>ValidateToken\<close> and
  accepted by \<open>ValidateRefreshToken\<close>; the access token is refused by
  \<open>ValidateRefreshToken\<close>.
\<close>

theorem verify_isolation_witness:
  "signed_with A0 (RefreshSecret cfg0) tokR \<and> type_claim tokR = Some ''refresh''
   \<and> isl (ValidateToken A0 cfg0 t7 tokR)
   \<and> \<not> isl (ValidateRefreshToken A0 cfg0 t7 tokR)
   \<and> signed_with A0 (AccessSecret cfg0) tokA \<and> isl (ValidateRefreshToken A0 cfg0 t7 tokA)"
proof -
  have s: "signed_with A0 (RefreshSecret cfg0) tokR" "type_claim tokR = Some ''refresh''"
          "signed_with A0 (AccessSecret cfg0) tokA"
          "\<not> isl (ValidateRefreshToken A0 cfg0 t7 tokR)"
    by code_simp+
  have k: "\<And>t. \<forall>j. t = Wellformed j \<longrightarrow>
             hmac_sign A0 (Alg j) (RefreshSecret cfg0) (Claims j)
               \<noteq> hmac_sign A0 (Alg j) (AccessSecret cfg0) (Claims j)"
    by (simp add: A0_def cfg0_def)
  from verify_isolation [of A0 cfg0 t7 tokR] s k [of tokR]
  have 1: "isl (ValidateToken A0 cfg0 t7 tokR)" by blast
  from verify_isolation [of A0 cfg0 t7 tokA] s k [of tokA]
  have 2: "isl (ValidateRefreshToken A0 cfg0 t7 tokA)" by blast
  from s 1 2 show ?thesis by simp
qed

subsection \<open>Opaque verification failure\<close>

text \<open>
  C7. \<open>VerifyToken\<close> never returns an error. Its response is either the valid one,
  carrying the user id, role and email of the token's claims, or exactly
  \<open>{valid: false}\<close> with every other field empty. The response is \<open>{valid: false}\<close>
  when the token does not validate (in particular when it is malformed and when its
  \<open>exp\<close> has passed), when it is blacklisted, when the lookup in the ephemeral store
  fails with a transport error, when no user has the id of the claims, and when that
  user is inactive.
\<close>

theorem VerifyToken_opaque:
  assumes "VerifyToken A cfg now tok w = ((resp, err), w')"
  shows "err = None
     \<and> (resp = invalid_response \<or>
        (\<exists>claims. ValidateToken A cfg now tok = Inr claims
           \<and> resp = \<lparr> Valid = True, vUserID = cUserID claims, vRole = cRole claims,
                      vEmail = cEmail claims \<rparr>))
     \<and> (isl (ValidateToken A cfg now tok) \<longrightarrow> resp = invalid_response)
     \<and> (\<forall>s. tok = Malformed s \<longrightarrow> resp = invalid_response)
     \<and> (\<forall>j e. tok = Wellformed j \<and> map_of (Claims j) ''exp'' = Some (JNumber e)
            \<and> e * time_Second \<le> now \<longrightarrow> resp = invalid_response)
     \<and> (redis_live w now (blacklist_key (HashToken A tok)) \<noteq> None \<longrightarrow> resp = invalid_response)
     \<and> (nth_fault (redis_faults w) 0 \<longrightarrow> resp = invalid_response)
     \<and> (\<forall>claims uid. ValidateToken A cfg now tok = Inr claims
            \<and> uuid_Parse A (cUserID claims) = Some uid
            \<and> (\<forall>u \<in> set (users w). ID u \<noteq> uid) \<longrightarrow> resp = invalid_response)
     \<and> (\<forall>claims uid. ValidateToken A cfg now tok = Inr claims
            \<and> uuid_Parse A (cUserID claims) = Some uid
            \<and> (\<forall>u \<in> set (users w). ID u = uid \<longrightarrow> \<not> IsActive u) \<longrightarrow> resp = invalid_response)"
proof -
  from VerifyToken_cases [OF assms] have e: "err = None" by simp
  show ?thesis
  proof (cases "resp = invalid_response")
    case True
    with e show ?thesis by simp
  next
    case False
    with VerifyToken_cases [OF assms] obtain claims uid user w1 w2 where
      v: "ValidateToken A cfg now tok = Inr claims"
      and b: "IsTokenBlacklisted (HashToken A tok) now w = (Inr False, w1)"
      and p: "uuid_Parse A (cUserID claims) = Some uid"
      and g: "GetByID uid w1 = (Inr user, w2)"
      and r: "resp = \<lparr> Valid = True, vUserID = cUserID claims, vRole = cRole claims,
                        vEmail = cEmail claims \<rparr>"
      by blast
    from IsTokenBlacklisted_False [OF b] have uw: "users w1 = users w"
      by simp
    from GetByID_Inr [OF g] uw have u: "user \<in> set (users w)" "ID user = uid" "IsActive user"
      by simp_all
    from ValidateToken_unexpired [OF v] obtain j where
      j: "tok = Wellformed j"
         "\<forall>e. map_of (Claims j) ''exp'' = Some (JNumber e) \<longrightarrow> now < e * time_Second"
      by blast
    from IsTokenBlacklisted_False [OF b] u v p r e j show ?thesis by auto
  qed
qed

text \<open>
  An instance: a valid access token, verified while the ephemeral store fails, gives
  \<open>{valid: false}\<close> and no error.
\<close>

theorem VerifyToken_opaque_witness:
  "nth_fault (redis_faults w_getfail) 0
   \<and> \<not> isl (ValidateToken A0 cfg0 t7 tokA)
   \<and> fst (VerifyToken A0 cfg0 t7 tokA w_getfail) = (invalid_response, None)"
proof -
  let ?x = "VerifyToken A0 cfg0 t7 tokA w_getfail"
  have h: "?x = ((fst (fst ?x), snd (fst ?x)), snd ?x)"
    by simp
  have f: "nth_fault (redis_faults w_getfail) 0"
    by (simp add: w_getfail_def nth_fault_def)
  have v: "\<not> isl (ValidateToken A0 cfg0 t7 tokA)"
    by code_simp
  from VerifyToken_opaque [OF h] f
  have "snd (fst ?x) = None \<and> fst (fst ?x) = invalid_response"
    by blast
  then have "fst ?x = (invalid_response, None)"
    by (simp add: prod_eq_iff)
  with f v show ?thesis by simp
qed

subsection \<open>The discarded error of the delete\<close>

text \<open>
  C10. \<open>RefreshToken\<close> discards the result of \<open>DeleteRefreshToken\<close>. The delete is the
  fourth call to the ephemeral store in a successful rotation. When that call fails
  and the rotation is reported as a success, the record of the old refresh token is
  still alive in the resulting state (untouched, when the new token hashes to another
  key), and the response is the one the rotation gives when the delete works.
\<close>

theorem RefreshToken_delete_error_discarded:
  assumes "RefreshToken A cfg now R w = (Inr resp, w')"
      and "nth_fault (redis_faults w) 3"
  shows "redis_live w' now (refresh_key (HashToken A R)) \<noteq> None
       \<and> (HashToken A (rRefreshToken resp) \<noteq> HashToken A R \<longrightarrow>
            redis w' (refresh_key (HashToken A R)) = redis w (refresh_key (HashToken A R)))
       \<and> fst (RefreshToken A cfg now R (w \<lparr> redis_faults := (redis_faults w)[3 := False] \<rparr>)) = Inr resp"
proof -
  from RefreshToken_success [OF assms(1)] obtain user where
    ok: "rotation_ok A cfg now R user w" and r: "resp = rotation_response A cfg now user"
    and w': "w' = rotated A cfg now R user w"
    by blast
  from ok have live: "redis_live w now (refresh_key (HashToken A R)) \<noteq> None"
    by (auto simp: rotation_ok_def)
  have 1: "redis_live w' now (refresh_key (HashToken A R)) \<noteq> None"
    using live assms(2) time_Hour_pos
    by (auto simp: w' rotated_def redis_live_def Let_def)
  have 2: "HashToken A (rRefreshToken resp) \<noteq> HashToken A R \<longrightarrow>
            redis w' (refresh_key (HashToken A R)) = redis w (refresh_key (HashToken A R))"
    using assms(2) by (auto simp: w' r rotated_def rotation_response_def Let_def)
  from ok have "rotation_ok A cfg now R user (w \<lparr> redis_faults := (redis_faults w)[3 := False] \<rparr>)"
    by (simp add: rotation_ok_def redis_live_def nth_fault_update)
  from RefreshToken_succeeds [OF this] r
  have 3: "fst (RefreshToken A cfg now R (w \<lparr> redis_faults := (redis_faults w)[3 := False] \<rparr>)) = Inr resp"
    by simp
  from 1 2 3 show ?thesis by simp
qed

text \<open>
  An instance: the refresh token of a login is rotated while the delete fails; the
  rotation succeeds and the old record is still there.
\<close>

theorem RefreshToken_delete_error_discarded_witness:
  "nth_fault (redis_faults w_delfail) 3
   \<and> fst (RefreshToken A0 cfg0 t7 tokR w_delfail) = Inr (rotation_response A0 cfg0 t7 alice)
   \<and> redis_live (snd (RefreshToken A0 cfg0 t7 tokR w_delfail)) t7 (refresh_key (HashToken A0 tokR))
       \<noteq> None
   \<and> redis (snd (RefreshToken A0 cfg0 t7 tokR w_delfail)) (refresh_key (HashToken A0 tokR))
       = redis w_delfail (refresh_key (HashToken A0 tokR))"
proof -
  have r: "fst (RefreshToken A0 cfg0 t7 tokR w_delfail) = Inr (rotation_response A0 cfg0 t7 alice)"
    by code_simp
  then have h: "RefreshToken A0 cfg0 t7 tokR w_delfail
                  = (Inr (rotation_response A0 cfg0 t7 alice),
                     snd (RefreshToken A0 cfg0 t7 tokR w_delfail))"
    by (simp add: prod_eq_iff)
  have f: "nth_fault (redis_faults w_delfail) 3"
    by code_simp
  have d: "HashToken A0 (rRefreshToken (rotation_response A0 cfg0 t7 alice)) \<noteq> HashToken A0 tokR"
    by code_simp
  from RefreshToken_delete_error_discarded [OF h f] d r f show ?thesis
    by simp
qed

subsection \<open>Rotation at most once\<close>




section \<open>Properties of the login\<close>

subsection \<open>Shared lemmas\<close>





text \<open>At the largest \<open>int\<close> the increment wraps around, and the account is not locked.\<close>

lemma Increment_wraps:
  "FailedLoginAttempts u = 9223372036854775807 \<Longrightarrow>
     FailedLoginAttempts (IncrementFailedAttempts now u) = - 9223372036854775808
     \<and> LockedUntil (IncrementFailedAttempts now u) = LockedUntil u"
  by (simp add: IncrementFailedAttempts_def Let_def wrap64_def)


lemma CreateLoginAttempt_users [simp]:
  "users (snd (CreateLoginAttempt a w)) = users w"
  by (auto simp: CreateLoginAttempt_def db_call_def)

lemma CreateSession_users [simp]:
  "users (snd (CreateSession s w)) = users w"
  by (auto simp: CreateSession_def db_call_def)

lemma StoreRefreshToken_users [simp]:
  "users (snd (StoreRefreshToken A uid h e now w)) = users w"
  by (auto simp: StoreRefreshToken_eq)













subsection \<open>Lockout\<close>




section \<open>Properties of the profile update\<close>

subsection \<open>Shared lemmas\<close>

lemma find_mem: "find P xs = Some x \<Longrightarrow> x \<in> set xs \<and> P x"
  by (induction xs) (auto split: if_splits)

lemma filtered_keys:
  "\<not> allowedProfileFields c \<Longrightarrow> map_of (filter (\<lambda>(key, v). allowedProfileFields key) fs) c = None"
  by (induction fs) auto

lemma update_row_frame:
  assumes "filterAllowedFields fs = Inr updateFields" "\<not> allowedProfileFields c" "c \<noteq> ''updated_at''"
  shows "update_row updateFields now r c = r c"
  using assms filtered_keys [of c fs]
  by (auto simp: filterAllowedFields_def update_row_def map_add_def Let_def split: if_splits)

lemma UpdateProfile_rows:
  assumes "UpdateProfile userID flds now db = (err, db')"
  shows "user_rows db' = user_rows db
       \<or> (\<exists>fs updateFields. err = None \<and> flds = Some fs \<and> filterAllowedFields fs = Inr updateFields
            \<and> (\<exists>r \<in> set (user_rows db). r ''id'' = Some (VUuid userID) \<and> r ''is_active'' = Some (VBool True)
                  \<and> not_deleted r)
            \<and> user_rows db' = map (\<lambda>r. if r ''id'' = Some (VUuid userID) \<and> not_deleted r
                       then update_row updateFields now r else r) (user_rows db))"
  using assms
  by (auto simp: UpdateProfile_def validateProfileUpdateFields_def Let_def
           split: option.splits sum.splits if_splits dest!: find_mem)

lemma UpdateProfile_success:
  assumes "UpdateProfile userID flds now db = (None, db')"
  shows "\<exists>fs updateFields. flds = Some fs \<and> filterAllowedFields fs = Inr updateFields
            \<and> (\<exists>r \<in> set (user_rows db). r ''id'' = Some (VUuid userID) \<and> r ''is_active'' = Some (VBool True)
                  \<and> not_deleted r)
            \<and> user_rows db' = map (\<lambda>r. if r ''id'' = Some (VUuid userID) \<and> not_deleted r
                       then update_row updateFields now r else r) (user_rows db)"
  using assms
  by (auto simp: UpdateProfile_def validateProfileUpdateFields_def Let_def
           split: option.splits sum.splits if_splits dest!: find_mem)

lemma UpdateProfile_errors:
  assumes "UpdateProfile userID flds now db = (err, db')"
      and "flds = None \<or> flds = Some []
           \<or> (\<exists>fs. flds = Some fs \<and> (\<forall>k \<in> fst ` set fs. \<not> allowedProfileFields k))
           \<or> \<not> (\<exists>r \<in> set (user_rows db). r ''id'' = Some (VUuid userID)
                   \<and> r ''is_active'' = Some (VBool True) \<and> not_deleted r)"
  shows "err \<noteq> None \<and> user_rows db' = user_rows db"
proof -
  have nf: "\<And>fs. \<forall>k \<in> fst ` set fs. \<not> allowedProfileFields k \<Longrightarrow>
              filter (\<lambda>(key, v). allowedProfileFields key) fs = []"
    by (auto simp: filter_empty_conv)
  from assms show ?thesis
    by (auto simp: UpdateProfile_def validateProfileUpdateFields_def filterAllowedFields_def
                   Let_def find_None_iff nf
             split: option.splits sum.splits if_splits dest!: find_mem)
qed

subsection \<open>The allowlist as a frame\<close>

text \<open>
  C9, as stated, fails for one column: \<open>updated_at\<close> is outside the allowlist, and a
  successful \<open>UpdateProfile\<close> changes it.
\<close>

theorem UpdateProfile_touches_updated_at:
  "fst (UpdateProfile 1 fields_mixed t7 table0) = None
   \<and> \<not> allowedProfileFields ''updated_at''
   \<and> column ''updated_at'' table0 = [Some (VTime 0)]
   \<and> column ''updated_at'' (snd (UpdateProfile 1 fields_mixed t7 table0)) = [Some (VTime t7)]
   \<and> t7 \<noteq> 0"
  by code_simp

text \<open>
  C9, amended. For every call of \<open>UpdateProfile\<close>, every column outside the allowlist
  other than \<open>updated_at\<close> has, in every row, the value it had before; in particular
  \<open>password_hash\<close>. A call that returns no error has found an active row of the user
  that is not soft-deleted, and it sets \<open>updated_at\<close> to the time of the update in
  the rows of that user that are not soft-deleted and leaves it as it was in every
  other row. A call with a nil or empty field map, with a field map whose keys are
  all outside the allowlist, or for a user that does not exist, is inactive or is
  soft-deleted, returns an error and leaves every row as it was.
\<close>

theorem UpdateProfile_frame:
  assumes "UpdateProfile userID flds now db = (err, db')"
  shows "(\<forall>c. \<not> allowedProfileFields c \<and> c \<noteq> ''updated_at'' \<longrightarrow> column c db' = column c db)
       \<and> column ''password_hash'' db' = column ''password_hash'' db
       \<and> (err = None \<longrightarrow>
            (\<exists>r \<in> set (user_rows db). r ''id'' = Some (VUuid userID)
                \<and> r ''is_active'' = Some (VBool True) \<and> not_deleted r)
            \<and> column ''updated_at'' db'
                = map (\<lambda>r. if r ''id'' = Some (VUuid userID) \<and> not_deleted r
                            then Some (VTime now) else r ''updated_at'') (user_rows db))
       \<and> (flds = None \<or> flds = Some []
            \<or> (\<exists>fs. flds = Some fs \<and> (\<forall>k \<in> fst ` set fs. \<not> allowedProfileFields k))
            \<or> \<not> (\<exists>r \<in> set (user_rows db). r ''id'' = Some (VUuid userID)
                    \<and> r ''is_active'' = Some (VBool True) \<and> not_deleted r)
            \<longrightarrow> err \<noteq> None \<and> user_rows db' = user_rows db)"
proof -
  have frame: "column c db' = column c db" if c: "\<not> allowedProfileFields c" "c \<noteq> ''updated_at''" for c
    using UpdateProfile_rows [OF assms]
  proof
    assume "user_rows db' = user_rows db"
    then show ?thesis by (simp add: column_def)
  next
    assume "\<exists>fs updateFields. err = None \<and> flds = Some fs \<and> filterAllowedFields fs = Inr updateFields
            \<and> (\<exists>r \<in> set (user_rows db). r ''id'' = Some (VUuid userID) \<and> r ''is_active'' = Some (VBool True)
                  \<and> not_deleted r)
            \<and> user_rows db' = map (\<lambda>r. if r ''id'' = Some (VUuid userID) \<and> not_deleted r
                       then update_row updateFields now r else r) (user_rows db)"
    then obtain fs updateFields where
      f: "filterAllowedFields fs = Inr updateFields"
      and r: "user_rows db' = map (\<lambda>r. if r ''id'' = Some (VUuid userID) \<and> not_deleted r
                       then update_row updateFields now r else r) (user_rows db)"
      by blast
    show ?thesis
      by (simp add: column_def r update_row_frame [OF f c])
  qed
  have "\<not> allowedProfileFields ''password_hash''"
    by (simp add: allowedProfileFields_def)
  then have pw: "column ''password_hash'' db' = column ''password_hash'' db"
    by (rule frame) simp
  have touched: "(\<exists>r \<in> set (user_rows db). r ''id'' = Some (VUuid userID)
                \<and> r ''is_active'' = Some (VBool True) \<and> not_deleted r)
            \<and> column ''updated_at'' db'
                = map (\<lambda>r. if r ''id'' = Some (VUuid userID) \<and> not_deleted r
                            then Some (VTime now) else r ''updated_at'') (user_rows db)"
    if "err = None"
  proof -
    from assms that have "UpdateProfile userID flds now db = (None, db')" by simp
    from UpdateProfile_success [OF this] obtain updateFields where
      e: "\<exists>r \<in> set (user_rows db). r ''id'' = Some (VUuid userID)
                \<and> r ''is_active'' = Some (VBool True) \<and> not_deleted r"
      and r: "user_rows db' = map (\<lambda>r. if r ''id'' = Some (VUuid userID) \<and> not_deleted r
                       then update_row updateFields now r else r) (user_rows db)"
      by blast
    have "column ''updated_at'' db'
            = map (\<lambda>r. if r ''id'' = Some (VUuid userID) \<and> not_deleted r
                        then Some (VTime now) else r ''updated_at'') (user_rows db)"
      by (simp add: column_def r update_row_def)
    with e show ?thesis by simp
  qed
  from frame pw touched UpdateProfile_errors [OF assms] show ?thesis by blast
qed

text \<open>
  An instance: a field map with \<open>first_name\<close> and \<open>password_hash\<close> changes the first
  and not the second, and \<open>updated_at\<close> becomes the time of the update; a field map
  with \<open>password_hash\<close> alone is refused.
\<close>

theorem UpdateProfile_frame_witness:
  "fst (UpdateProfile 1 fields_mixed t7 table0) = None
   \<and> column ''password_hash'' (snd (UpdateProfile 1 fields_mixed t7 table0))
       = [Some (VString ''hash:p@ssw0rd'')]
   \<and> column ''first_name'' (snd (UpdateProfile 1 fields_mixed t7 table0)) = [Some (VString ''Al'')]
   \<and> column ''updated_at'' (snd (UpdateProfile 1 fields_mixed t7 table0)) = [Some (VTime t7)]
   \<and> fst (UpdateProfile 1 (Some [(''password_hash'', VString ''evil'')]) t7 table0) \<noteq> None
   \<and> user_rows (snd (UpdateProfile 1 (Some [(''password_hash'', VString ''evil'')]) t7 table0))
       = user_rows table0"
proof -
  let ?x = "UpdateProfile 1 fields_mixed t7 table0"
  let ?y = "UpdateProfile 1 (Some [(''password_hash'', VString ''evil'')]) t7 table0"
  have hx: "?x = (fst ?x, snd ?x)" and hy: "?y = (fst ?y, snd ?y)" by simp_all
  have e: "fst ?x = None" by code_simp
  have f: "column ''first_name'' (snd ?x) = [Some (VString ''Al'')]" by code_simp
  have p0: "column ''password_hash'' table0 = [Some (VString ''hash:p@ssw0rd'')]" by code_simp
  have na: "\<exists>fs. Some [(''password_hash'', VString ''evil'')] = Some fs
              \<and> (\<forall>k \<in> fst ` set fs. \<not> allowedProfileFields k)"
    by (simp add: allowedProfileFields_def)
  from UpdateProfile_frame [OF hx] p0
  have 1: "column ''password_hash'' (snd ?x) = [Some (VString ''hash:p@ssw0rd'')]"
    by simp
  have m: "map (\<lambda>r. if r ''id'' = Some (VUuid 1) \<and> not_deleted r
                      then Some (VTime t7) else r ''updated_at'') (user_rows table0)
             = [Some (VTime t7)]"
    by code_simp
  from UpdateProfile_frame [OF hx] e
  have "column ''updated_at'' (snd ?x)
             = map (\<lambda>r. if r ''id'' = Some (VUuid 1) \<and> not_deleted r
                         then Some (VTime t7) else r ''updated_at'') (user_rows table0)"
    by blast
  with m have 3: "column ''updated_at'' (snd ?x) = [Some (VTime t7)]"
    by simp
  from UpdateProfile_frame [OF hy] na
  have 2: "fst ?y \<noteq> None \<and> user_rows (snd ?y) = user_rows table0"
    by blast
  from e f 1 2 3 show ?thesis by simp
qed

end
